theory Spec2Isabelle
  imports Main "HOL-Library.AList" "HOL-Library.Char_ord" "HOL-Library.List_Lexorder"
begin

section \<open>Data model of src/pages/StudyRoom.tsx\<close>

text \<open>
  The component keeps its WebRTC state in React refs and mutates it from event handlers.
  The model is explicit state passing over a record \<open>session\<close>: every handler of the
  source is a function from the session before the event to the session after it.

  Objects that the source shares by reference live in stores addressed by handles:
  \<open>pcs\<close> holds the \<open>PeerConnection\<close> wrappers (the \<open>RTCPeerConnection\<close> and its
  \<open>stream\<close>), \<open>tracks\<close> the \<open>MediaStreamTrack\<close>s. The JavaScript \<open>Map\<close>
  \<open>peerConnectionsRef\<close> is an association list from participant id to handle, in
  insertion order; \<open>AList.update\<close> is \<open>Map.set\<close>, \<open>AList.delete\<close> is
  \<open>Map.delete\<close>, \<open>map_of\<close> is \<open>Map.get\<close>.

  The browser's WebRTC engine and the Supabase client are not code of this repository.
  They are a parameter, the record \<open>platform\<close>, which says for each call whether it
  returns or throws.

  An \<open>async\<close> handler is modelled as running to its end once it is entered, with the
  one exception the source makes visible: \<open>createPeerConnection\<close> is called without
  \<open>await\<close> inside \<open>forEach\<close>, so its synchronous prefix and its continuation are
  two functions.
\<close>

type_synonym uid = string
type_synonym payload = string

record participant =
  p_id :: string
  username :: string
  user_id :: uid
  is_active :: bool

datatype track_kind = Audio | Video

record track =
  kind :: track_kind
  enabled :: bool
  stopped :: bool

datatype connection_state = New | Connecting | Connected | Disconnected | Failed | Closed

text \<open>
  The two \<open>onconnectionstatechange\<close> closures of the source: the one installed by
  \<open>createPeerConnection\<close> (toast on connected, retry timer on failed/disconnected), which
  captures the participant's id and name, and the one installed by \<open>handleOffer\<close>,
  which only logs.
\<close>

datatype state_handler = RetryHandler uid string | LogHandler uid

record rtc_pc =
  senders :: "nat list"
  localDescription :: "payload option"
  remoteDescription :: "payload option"
  addedCandidates :: "payload list"
  connectionState :: connection_state
  onconnectionstatechange :: state_handler
  isClosed :: bool
  stream :: "nat option"

record envelope =
  room_id :: string
  from_user_id :: uid
  to_user_id :: uid
  signal_type :: string
  signal_data :: payload

text \<open>
  What \<open>await supabase.from('webrtc_signals').insert(row)\<close> can do: store the row,
  resolve with an \<open>error\<close> field (the form every other insert of the repository
  inspects, e.g. \<open>const { error } = await supabase.from('chat_messages').insert(...)\<close> in
  Chat.tsx), or reject.
\<close>

datatype insert_result = Inserted | ReturnedError string | Thrown string

record platform =
  construct_ok :: "nat \<Rightarrow> bool"
  createOffer :: "rtc_pc \<Rightarrow> payload option"
  createAnswer :: "rtc_pc \<Rightarrow> payload option"
  setLocalDescription_ok :: "rtc_pc \<Rightarrow> payload \<Rightarrow> bool"
  setRemoteDescription_ok :: "rtc_pc \<Rightarrow> payload \<Rightarrow> bool"
  addIceCandidate_ok :: "rtc_pc \<Rightarrow> payload \<Rightarrow> bool"
  insert_signal :: "envelope \<Rightarrow> insert_result"

datatype console_entry = ConsoleLog "string list" | ConsoleError "string list"

record retry_timer =
  delay_ms :: nat
  t_user :: uid
  t_name :: string

record session =
  roomId :: "string option"
  user :: "uid option"
  participants :: "participant list"
  isAudioOn :: bool
  isVideoOn :: bool
  localStreamRef :: "nat list option"
  tracks :: "nat \<Rightarrow> track"
  peerConnectionsRef :: "(uid \<times> nat) list"
  pcs :: "nat \<Rightarrow> rtc_pc"
  next_pc :: nat
  remoteVideosRef :: "(uid \<times> nat option) list"
  signalingChannelRef :: bool
  isInitializedRef :: bool
  timers :: "retry_timer list"
  insert_calls :: "envelope list"
  webrtc_signals :: "envelope list"
  console :: "console_entry list"
  toasts :: "(string \<times> string) list"

section \<open>Small helpers\<close>

definition console_log :: "string list \<Rightarrow> session \<Rightarrow> session" where
  "console_log args s = s\<lparr>console := console s @ [ConsoleLog args]\<rparr>"

definition console_error :: "string list \<Rightarrow> session \<Rightarrow> session" where
  "console_error args s = s\<lparr>console := console s @ [ConsoleError args]\<rparr>"

definition toast :: "string \<Rightarrow> string \<Rightarrow> session \<Rightarrow> session" where
  "toast title description s = s\<lparr>toasts := toasts s @ [(title, description)]\<rparr>"

definition update_pc :: "nat \<Rightarrow> (rtc_pc \<Rightarrow> rtc_pc) \<Rightarrow> session \<Rightarrow> session" where
  "update_pc h f s = s\<lparr>pcs := (pcs s)(h := f (pcs s h))\<rparr>"

text \<open>\<open>pc.close()\<close> of the engine.\<close>

definition rtc_close :: "rtc_pc \<Rightarrow> rtc_pc" where
  "rtc_close pc = pc\<lparr>isClosed := True, connectionState := Closed\<rparr>"

text \<open>
  \<open>new RTCPeerConnection(rtcConfiguration)\<close> followed by \<open>addTrack\<close> for every track
  of the local stream and the installation of the state handler.
\<close>

definition new_pc :: "nat list \<Rightarrow> state_handler \<Rightarrow> rtc_pc" where
  "new_pc ts handler = \<lparr>senders = ts, localDescription = None, remoteDescription = None,
     addedCandidates = [], connectionState = New, onconnectionstatechange = handler,
     isClosed = False, stream = None\<rparr>"

section \<open>sendSignal\<close>

text \<open>
  The guard \<open>if (!roomId || !user) return\<close>: \<open>undefined\<close> and the empty string are
  the falsy values of \<open>roomId\<close>. The result of the insert is awaited and thrown away;
  only a rejection reaches the \<open>catch\<close> block.
\<close>

definition sendSignal :: "platform \<Rightarrow> uid \<Rightarrow> string \<Rightarrow> payload \<Rightarrow> session \<Rightarrow> session" where
  "sendSignal pf toUserId signalType signalData s =
     (case roomId s of
        None \<Rightarrow> s
      | Some r \<Rightarrow>
          if r = [] then s
          else
            (case user s of
               None \<Rightarrow> s
             | Some u \<Rightarrow>
                 let row = \<lparr>room_id = r, from_user_id = u, to_user_id = toUserId,
                             signal_type = signalType, signal_data = signalData\<rparr>;
                     s1 = s\<lparr>insert_calls := insert_calls s @ [row]\<rparr>
                 in (case insert_signal pf row of
                       Inserted \<Rightarrow> s1\<lparr>webrtc_signals := webrtc_signals s1 @ [row]\<rparr>
                     | ReturnedError m \<Rightarrow> s1
                     | Thrown m \<Rightarrow> console_error [''Error sending signal:'', m] s1)))"

section \<open>closePeerConnection and cleanup\<close>

definition closePeerConnection :: "uid \<Rightarrow> session \<Rightarrow> session" where
  "closePeerConnection userId s =
     (case map_of (peerConnectionsRef s) userId of
        None \<Rightarrow> s
      | Some h \<Rightarrow>
          s\<lparr>pcs := (pcs s)(h := rtc_close (pcs s h)),
            peerConnectionsRef := AList.delete userId (peerConnectionsRef s),
            remoteVideosRef := AList.delete userId (remoteVideosRef s)\<rparr>)"

fun stop_all :: "nat list \<Rightarrow> (nat \<Rightarrow> track) \<Rightarrow> (nat \<Rightarrow> track)" where
  "stop_all [] tr = tr"
| "stop_all (t # ts) tr = stop_all ts (tr(t := (tr t)\<lparr>stopped := True\<rparr>))"

fun close_all :: "(uid \<times> nat) list \<Rightarrow> (nat \<Rightarrow> rtc_pc) \<Rightarrow> (nat \<Rightarrow> rtc_pc)" where
  "close_all [] hp = hp"
| "close_all ((u, h) # m) hp = close_all m (hp(h := rtc_close (hp h)))"

definition cleanup :: "session \<Rightarrow> session" where
  "cleanup s =
     (let s1 = (case localStreamRef s of
                  None \<Rightarrow> s
                | Some ts \<Rightarrow> s\<lparr>tracks := stop_all ts (tracks s), localStreamRef := None\<rparr>);
          s2 = s1\<lparr>pcs := close_all (peerConnectionsRef s1) (pcs s1), peerConnectionsRef := []\<rparr>;
          s3 = (if signalingChannelRef s2 then s2\<lparr>signalingChannelRef := False\<rparr> else s2)
      in s3\<lparr>isInitializedRef := False\<rparr>)"

section \<open>createPeerConnection\<close>

text \<open>
  The body of the \<open>catch\<close> block of \<open>createPeerConnection\<close>; \<open>err\<close> names the
  call that threw.
\<close>

definition create_failed :: "string \<Rightarrow> string \<Rightarrow> session \<Rightarrow> session" where
  "create_failed participantUsername err s =
     toast ''Connection Error'' (''Failed to connect to '' @ participantUsername)
       (console_error [''Error creating peer connection:'', err] s)"

text \<open>
  The synchronous prefix, up to \<open>peerConnectionsRef.current.set\<close>: it returns the handle
  of the connection whose offer is still to be made, or nothing when the function has
  returned early or thrown.
\<close>

definition createPeerConnection_begin ::
  "platform \<Rightarrow> uid \<Rightarrow> string \<Rightarrow> session \<Rightarrow> session \<times> nat option" where
  "createPeerConnection_begin pf participantUserId participantUsername s =
     (case localStreamRef s of
        None \<Rightarrow> (s, None)
      | Some ts \<Rightarrow>
          if user s = None then (s, None)
          else
            let s1 = console_log [''Creating peer connection with:'', participantUsername,
                                  participantUserId] s
            in if \<not> construct_ok pf (next_pc s1)
               then (create_failed participantUsername ''RTCPeerConnection'' s1, None)
               else
                 let h = next_pc s1
                 in (s1\<lparr>pcs := (pcs s1)(h := new_pc ts
                                     (RetryHandler participantUserId participantUsername)),
                        next_pc := Suc h,
                        peerConnectionsRef :=
                          AList.update participantUserId h (peerConnectionsRef s1)\<rparr>,
                     Some h))"

text \<open>The continuation: create the offer, set it as local description, send it.\<close>

definition createPeerConnection_resume ::
  "platform \<Rightarrow> uid \<Rightarrow> string \<Rightarrow> nat \<Rightarrow> session \<Rightarrow> session" where
  "createPeerConnection_resume pf participantUserId participantUsername h s =
     (case createOffer pf (pcs s h) of
        None \<Rightarrow> create_failed participantUsername ''createOffer'' s
      | Some offer \<Rightarrow>
          if \<not> setLocalDescription_ok pf (pcs s h) offer
          then create_failed participantUsername ''setLocalDescription'' s
          else
            sendSignal pf participantUserId ''offer'' offer
              (console_log [''Sending offer to:'', participantUserId]
                 (update_pc h (\<lambda>pc. pc\<lparr>localDescription := Some offer\<rparr>) s)))"

definition createPeerConnection :: "platform \<Rightarrow> uid \<Rightarrow> string \<Rightarrow> session \<Rightarrow> session" where
  "createPeerConnection pf participantUserId participantUsername s =
     (case createPeerConnection_begin pf participantUserId participantUsername s of
        (s1, None) \<Rightarrow> s1
      | (s1, Some h) \<Rightarrow> createPeerConnection_resume pf participantUserId participantUsername h s1)"

section \<open>Inbound signals\<close>

definition handleOffer :: "platform \<Rightarrow> uid \<Rightarrow> payload \<Rightarrow> session \<Rightarrow> session" where
  "handleOffer pf fromUserId offer s =
     (case localStreamRef s of
        None \<Rightarrow> s
      | Some ts \<Rightarrow>
          if user s = None then s
          else
            let s1 = console_log [''Handling offer from:'', fromUserId] s;
                got = (case map_of (peerConnectionsRef s1) fromUserId of
                         Some h \<Rightarrow> Some (s1, h)
                       | None \<Rightarrow>
                           if \<not> construct_ok pf (next_pc s1) then None
                           else
                             let h = next_pc s1
                             in Some (s1\<lparr>pcs := (pcs s1)(h := new_pc ts (LogHandler fromUserId)),
                                         next_pc := Suc h,
                                         peerConnectionsRef :=
                                           AList.update fromUserId h (peerConnectionsRef s1)\<rparr>,
                                      h))
            in (case got of
                  None \<Rightarrow> console_error [''Error handling offer:'', ''RTCPeerConnection''] s1
                | Some (s2, h) \<Rightarrow>
                    if \<not> setRemoteDescription_ok pf (pcs s2 h) offer
                    then console_error [''Error handling offer:'', ''setRemoteDescription''] s2
                    else
                      let s3 = update_pc h (\<lambda>pc. pc\<lparr>remoteDescription := Some offer\<rparr>) s2
                      in (case createAnswer pf (pcs s3 h) of
                            None \<Rightarrow> console_error [''Error handling offer:'', ''createAnswer''] s3
                          | Some answer \<Rightarrow>
                              if \<not> setLocalDescription_ok pf (pcs s3 h) answer
                              then console_error
                                     [''Error handling offer:'', ''setLocalDescription''] s3
                              else
                                sendSignal pf fromUserId ''answer'' answer
                                  (console_log [''Sending answer to:'', fromUserId]
                                     (update_pc h (\<lambda>pc. pc\<lparr>localDescription := Some answer\<rparr>)
                                        s3)))))"

definition handleAnswer :: "platform \<Rightarrow> uid \<Rightarrow> payload \<Rightarrow> session \<Rightarrow> session" where
  "handleAnswer pf fromUserId answer s =
     (let s1 = console_log [''Handling answer from:'', fromUserId] s
      in (case map_of (peerConnectionsRef s1) fromUserId of
            None \<Rightarrow> s1
          | Some h \<Rightarrow>
              if \<not> setRemoteDescription_ok pf (pcs s1 h) answer
              then console_error [''Error handling answer:'', ''setRemoteDescription''] s1
              else update_pc h (\<lambda>pc. pc\<lparr>remoteDescription := Some answer\<rparr>) s1))"

definition handleIceCandidate :: "platform \<Rightarrow> uid \<Rightarrow> payload \<Rightarrow> session \<Rightarrow> session" where
  "handleIceCandidate pf fromUserId candidate s =
     (let s1 = console_log [''Handling ICE candidate from:'', fromUserId] s
      in (case map_of (peerConnectionsRef s1) fromUserId of
            None \<Rightarrow> s1
          | Some h \<Rightarrow>
              if remoteDescription (pcs s1 h) = None then s1
              else if \<not> addIceCandidate_ok pf (pcs s1 h) candidate
              then console_error [''Error handling ICE candidate:'', ''addIceCandidate''] s1
              else update_pc h (\<lambda>pc. pc\<lparr>addedCandidates := addedCandidates pc @ [candidate]\<rparr>)
                     s1))"

definition handleSignal :: "platform \<Rightarrow> envelope \<Rightarrow> session \<Rightarrow> session" where
  "handleSignal pf signal s =
     (let s1 = console_log [''Received signal:'', signal_type signal, ''from:'',
                            from_user_id signal] s
      in if signal_type signal = ''offer''
         then handleOffer pf (from_user_id signal) (signal_data signal) s1
         else if signal_type signal = ''answer''
         then handleAnswer pf (from_user_id signal) (signal_data signal) s1
         else if signal_type signal = ''ice-candidate''
         then handleIceCandidate pf (from_user_id signal) (signal_data signal) s1
         else s1)"

section \<open>Connection state changes and the retry timer\<close>

text \<open>
  The engine sets \<open>pc.connectionState\<close> of the connection with handle \<open>h\<close> to
  \<open>st\<close> and calls the handler installed on it. \<open>setTimeout(..., 2000)\<close> appends a
  timer; the delay is the literal of the source.
\<close>

fun state_name :: "connection_state \<Rightarrow> string" where
  "state_name New = ''new''"
| "state_name Connecting = ''connecting''"
| "state_name Connected = ''connected''"
| "state_name Disconnected = ''disconnected''"
| "state_name Failed = ''failed''"
| "state_name Closed = ''closed''"

definition connectionstatechange :: "nat \<Rightarrow> connection_state \<Rightarrow> session \<Rightarrow> session" where
  "connectionstatechange h st s =
     (let s1 = update_pc h (\<lambda>pc. pc\<lparr>connectionState := st\<rparr>) s
      in (case onconnectionstatechange (pcs s1 h) of
            LogHandler fromUserId \<Rightarrow>
              console_log [''Connection state with '' @ fromUserId @ '':'', state_name st] s1
          | RetryHandler participantUserId participantUsername \<Rightarrow>
              let s2 = console_log [''Connection state with '' @ participantUsername @ '':'',
                                    state_name st] s1
              in if st = Connected
                 then toast ''Connected'' (''Connected to '' @ participantUsername) s2
                 else if st = Failed \<or> st = Disconnected
                 then (console_log [''Connection failed/disconnected, will retry...''] s2)
                        \<lparr>timers := timers s2 @
                           [\<lparr>delay_ms = 2000, t_user = participantUserId,
                             t_name = participantUsername\<rparr>]\<rparr>
                 else s2))"

text \<open>The callback given to \<open>setTimeout\<close>.\<close>

definition retry_callback :: "platform \<Rightarrow> retry_timer \<Rightarrow> session \<Rightarrow> session" where
  "retry_callback pf t s =
     (if map_of (peerConnectionsRef s) (t_user t) \<noteq> None
      then createPeerConnection pf (t_user t) (t_name t) (closePeerConnection (t_user t) s)
      else s)"

text \<open>All timers have the same delay, so the oldest one fires first.\<close>

definition fire_timer :: "platform \<Rightarrow> session \<Rightarrow> session" where
  "fire_timer pf s =
     (case timers s of
        [] \<Rightarrow> s
      | t # ts \<Rightarrow> retry_callback pf t (s\<lparr>timers := ts\<rparr>))"

section \<open>The effect that follows the participant list\<close>

text \<open>
  \<open>participants.forEach\<close>: \<open>createPeerConnection\<close> is called and not awaited, so only
  its synchronous prefix runs inside the loop; the continuations are collected and run
  after the effect has returned.
\<close>

fun create_missing ::
  "platform \<Rightarrow> uid \<Rightarrow> participant list \<Rightarrow> session \<Rightarrow> session \<times> (uid \<times> string \<times> nat) list" where
  "create_missing pf u [] s = (s, [])"
| "create_missing pf u (p # ps) s =
     (if user_id p \<noteq> u \<and> map_of (peerConnectionsRef s) (user_id p) = None
      then (case createPeerConnection_begin pf (user_id p) (username p) s of
              (s1, None) \<Rightarrow> create_missing pf u ps s1
            | (s1, Some h) \<Rightarrow>
                (case create_missing pf u ps s1 of
                   (s2, pending) \<Rightarrow> (s2, (user_id p, username p, h) # pending)))
      else create_missing pf u ps s)"

text \<open>
  \<open>peerConnectionsRef.current.forEach\<close> over the keys of the map: the callback deletes
  at most the entry it is visiting, so the keys visited are the keys at the start.
\<close>

fun close_left :: "uid \<Rightarrow> uid list \<Rightarrow> uid list \<Rightarrow> session \<Rightarrow> session" where
  "close_left u participantIds [] s = s"
| "close_left u participantIds (userId # ks) s =
     close_left u participantIds ks
       (if userId \<noteq> u \<and> userId \<notin> set participantIds then closePeerConnection userId s else s)"

fun resume_all :: "platform \<Rightarrow> (uid \<times> string \<times> nat) list \<Rightarrow> session \<Rightarrow> session" where
  "resume_all pf [] s = s"
| "resume_all pf ((i, n, h) # pending) s =
     resume_all pf pending (createPeerConnection_resume pf i n h s)"

definition reconcile :: "platform \<Rightarrow> session \<Rightarrow> session" where
  "reconcile pf s =
     (if \<not> isInitializedRef s \<or> localStreamRef s = None then s
      else
        (case user s of
           None \<Rightarrow> s
         | Some u \<Rightarrow>
             (case create_missing pf u (participants s) s of
                (s1, pending) \<Rightarrow>
                  resume_all pf pending
                    (close_left u (map user_id (participants s))
                       (map fst (peerConnectionsRef s1)) s1))))"

text \<open>
  A membership delta: \<open>fetchParticipants\<close> replaces the participant list with the rows
  it has read, and the effect runs on the new list.
\<close>

definition setParticipants :: "platform \<Rightarrow> participant list \<Rightarrow> session \<Rightarrow> session" where
  "setParticipants pf ps s = reconcile pf (s\<lparr>participants := ps\<rparr>)"

section \<open>Local media toggles\<close>



section \<open>Concrete sessions\<close>

text \<open>
  A platform on which every call succeeds, and the session of a user right after
  \<open>initializeRoom\<close> has finished: a room, a local stream with an audio track (0) and a
  video track (1), no connection yet.
\<close>

definition accepting :: platform where
  "accepting = \<lparr>construct_ok = (\<lambda>n. True),
     createOffer = (\<lambda>pc. Some ''offer-sdp''),
     createAnswer = (\<lambda>pc. Some ''answer-sdp''),
     setLocalDescription_ok = (\<lambda>pc d. True),
     setRemoteDescription_ok = (\<lambda>pc d. True),
     addIceCandidate_ok = (\<lambda>pc c. True),
     insert_signal = (\<lambda>row. Inserted)\<rparr>"

definition media_tracks :: "nat \<Rightarrow> track" where
  "media_tracks t = \<lparr>kind = (if t = 0 then Audio else Video), enabled = True, stopped = False\<rparr>"

definition joined :: "uid \<Rightarrow> session" where
  "joined u = \<lparr>roomId = Some ''room'', user = Some u, participants = [],
     isAudioOn = True, isVideoOn = True, localStreamRef = Some [0, 1],
     tracks = media_tracks, peerConnectionsRef = [],
     pcs = (\<lambda>h. new_pc [] (LogHandler [])), next_pc = 0, remoteVideosRef = [],
     signalingChannelRef = True, isInitializedRef = True, timers = [],
     insert_calls = [], webrtc_signals = [], console = [], toasts = []\<rparr>"

definition member :: "uid \<Rightarrow> participant" where
  "member u = \<lparr>p_id = ''row-'' @ u, username = u, user_id = u, is_active = True\<rparr>"

text \<open>User a in a room with b, after the effect has created the connection to b.\<close>

definition a_with_b :: session where
  "a_with_b = setParticipants accepting [member ''a'', member ''b''] (joined ''a'')"


text \<open>
  A platform whose insert into \<open>webrtc_signals\<close> resolves with an error (the row is
  refused by the table's insert policy), everything else succeeding.
\<close>

definition insert_refused :: platform where
  "insert_refused =
     accepting\<lparr>insert_signal := (\<lambda>row. ReturnedError ''violates row-level security policy'')\<rparr>"


text \<open>Envelopes that b sends to a, and a's session once b's answer has been applied.\<close>

definition candidate_from_b :: envelope where
  "candidate_from_b = \<lparr>room_id = ''room'', from_user_id = ''b'', to_user_id = ''a'',
     signal_type = ''ice-candidate'', signal_data = ''candidate-1''\<rparr>"

definition answer_from_b :: envelope where
  "answer_from_b = \<lparr>room_id = ''room'', from_user_id = ''b'', to_user_id = ''a'',
     signal_type = ''answer'', signal_data = ''answer-sdp''\<rparr>"

definition offer_from_b :: envelope where
  "offer_from_b = \<lparr>room_id = ''room'', from_user_id = ''b'', to_user_id = ''a'',
     signal_type = ''offer'', signal_data = ''offer-sdp''\<rparr>"

definition a_answered :: session where
  "a_answered = handleSignal accepting answer_from_b a_with_b"

text \<open>
  User b in the same room, offering to a; an offer from a; the session of a when b's offer
  arrives before a has a connection to b; and a's connection to b failing, being retried,
  and failing again.
\<close>

definition b_with_a :: session where
  "b_with_a = setParticipants accepting [member ''a'', member ''b''] (joined ''b'')"

definition offer_from_a :: envelope where
  "offer_from_a = \<lparr>room_id = ''room'', from_user_id = ''a'', to_user_id = ''b'',
     signal_type = ''offer'', signal_data = ''offer-sdp''\<rparr>"

definition a_answering :: session where
  "a_answering = handleSignal accepting offer_from_b (joined ''a'')"

definition a_failed_once :: session where
  "a_failed_once = connectionstatechange 0 Failed (connectionstatechange 0 Connected a_with_b)"

definition a_failed_twice :: session where
  "a_failed_twice = connectionstatechange 1 Failed (fire_timer accepting a_failed_once)"

text \<open>
  Platforms on which the engine refuses every remote description, and on which no
  connection can be constructed.
\<close>

definition refusing_offers :: platform where
  "refusing_offers = accepting\<lparr>setRemoteDescription_ok := (\<lambda>pc d. False)\<rparr>"

definition no_engine :: platform where
  "no_engine = accepting\<lparr>construct_ok := (\<lambda>n. False)\<rparr>"

text \<open>
  In every session the component builds, a handle in the connection map was given out by
  an earlier construction, and no two ids share a connection object.
\<close>

definition well_formed :: "session \<Rightarrow> bool" where
  "well_formed s \<longleftrightarrow>
     (\<forall>(i, h) \<in> set (peerConnectionsRef s). h < next_pc s)
     \<and> distinct (map snd (peerConnectionsRef s))"

text \<open>User a after c and then b have joined: connections to c (0) and to b (1).\<close>

definition a_with_c_b :: session where
  "a_with_c_b = fold (setParticipants accepting)
     [[member ''a'', member ''c''], [member ''c'', member ''a'', member ''b'']] (joined ''a'')"

section \<open>Frame lemmas\<close>

lemmas eval_defs = setParticipants_def reconcile_def joined_def member_def
        createPeerConnection_begin_def createPeerConnection_resume_def console_log_def
        accepting_def update_pc_def sendSignal_def Let_def new_pc_def

lemma sendSignal_frame:
  "peerConnectionsRef (sendSignal pf t ty d s) = peerConnectionsRef s"
  "pcs (sendSignal pf t ty d s) = pcs s"
  "next_pc (sendSignal pf t ty d s) = next_pc s"
  "timers (sendSignal pf t ty d s) = timers s"
  "localStreamRef (sendSignal pf t ty d s) = localStreamRef s"
  "tracks (sendSignal pf t ty d s) = tracks s"
  "user (sendSignal pf t ty d s) = user s"
  "roomId (sendSignal pf t ty d s) = roomId s"
  "isInitializedRef (sendSignal pf t ty d s) = isInitializedRef s"
  "participants (sendSignal pf t ty d s) = participants s"
  "remoteVideosRef (sendSignal pf t ty d s) = remoteVideosRef s"
  by (simp_all add: sendSignal_def console_error_def Let_def
        split: option.splits insert_result.splits)

lemma a_with_b_connections: "peerConnectionsRef a_with_b = [(''b'', 0)]"
  by (simp add: a_with_b_def setParticipants_def reconcile_def joined_def member_def
        createPeerConnection_begin_def createPeerConnection_resume_def console_log_def
        accepting_def update_pc_def sendSignal_frame Let_def)

lemma a_with_b_stream: "localStreamRef a_with_b = Some [0, 1]"
  by (simp add: a_with_b_def setParticipants_def reconcile_def joined_def member_def
        createPeerConnection_begin_def createPeerConnection_resume_def console_log_def
        accepting_def update_pc_def sendSignal_frame Let_def)

section \<open>Closing connections\<close>

lemma close_all_keeps: "isClosed (hp h) \<Longrightarrow> isClosed (close_all m hp h)"
  by (induction m hp rule: close_all.induct) (auto simp: rtc_close_def)

lemma close_all_closes: "(u, h) \<in> set m \<Longrightarrow> isClosed (close_all m hp h)"
proof (induction m arbitrary: hp)
  case Nil
  then show ?case by simp
next
  case (Cons e m)
  obtain u' h' where e: "e = (u', h')" by (cases e)
  show ?case
  proof (cases "(u, h) = e")
    case True
    then show ?thesis using e by (simp add: close_all_keeps rtc_close_def)
  next
    case False
    with Cons.prems have "(u, h) \<in> set m" by simp
    then show ?thesis using e Cons.IH by simp
  qed
qed

lemma stop_all_keeps: "stopped (tr t) \<Longrightarrow> stopped (stop_all ts tr t)"
  by (induction ts tr rule: stop_all.induct) auto

lemma stop_all_stops: "t \<in> set ts \<Longrightarrow> stopped (stop_all ts tr t)"
  by (induction ts tr rule: stop_all.induct) (auto simp: stop_all_keeps)

text \<open>
  C9. On session stop (\<open>cleanup\<close>) the connection map is empty, every connection that
  was in the map is closed, the reference to the local stream is dropped and every track
  of the local stream is stopped.
\<close>

theorem cleanup_releases:
  "peerConnectionsRef (cleanup s) = []
   \<and> (\<forall>(u, h) \<in> set (peerConnectionsRef s). isClosed (pcs (cleanup s) h))
   \<and> localStreamRef (cleanup s) = None
   \<and> (\<forall>ts. localStreamRef s = Some ts \<longrightarrow> (\<forall>t \<in> set ts. stopped (tracks (cleanup s) t)))"
  by (auto simp: cleanup_def Let_def close_all_closes stop_all_stops split: option.splits)

theorem cleanup_releases_witness:
  "(''b'', 0) \<in> set (peerConnectionsRef a_with_b)
   \<and> localStreamRef a_with_b = Some [0, 1]
   \<and> peerConnectionsRef (cleanup a_with_b) = []
   \<and> isClosed (pcs (cleanup a_with_b) 0)
   \<and> localStreamRef (cleanup a_with_b) = None
   \<and> stopped (tracks (cleanup a_with_b) 0) \<and> stopped (tracks (cleanup a_with_b) 1)"
  using cleanup_releases [of a_with_b]
  by (simp add: a_with_b_connections a_with_b_stream)

text \<open>
  C8. \<open>closePeerConnection\<close> on an id that is not in the connection map returns the
  session as it was; applied twice with the same id it gives the session that one
  application gives; and on an id that is in the map it closes the connection and deletes
  the id from the connection map and from the map of video elements.
\<close>

theorem closePeerConnection_idempotent:
  "(map_of (peerConnectionsRef s) userId = None \<longrightarrow> closePeerConnection userId s = s)
   \<and> closePeerConnection userId (closePeerConnection userId s) = closePeerConnection userId s
   \<and> (\<forall>h. map_of (peerConnectionsRef s) userId = Some h \<longrightarrow>
         isClosed (pcs (closePeerConnection userId s) h)
         \<and> map_of (peerConnectionsRef (closePeerConnection userId s)) userId = None
         \<and> map_of (remoteVideosRef (closePeerConnection userId s)) userId = None)"
  by (auto simp: closePeerConnection_def rtc_close_def AList.delete_conv split: option.splits)

theorem closePeerConnection_idempotent_witness:
  "map_of (peerConnectionsRef a_with_b) ''c'' = None
   \<and> closePeerConnection ''c'' a_with_b = a_with_b
   \<and> map_of (peerConnectionsRef a_with_b) ''b'' = Some 0
   \<and> isClosed (pcs (closePeerConnection ''b'' a_with_b) 0)
   \<and> map_of (peerConnectionsRef (closePeerConnection ''b'' a_with_b)) ''b'' = None
   \<and> closePeerConnection ''b'' (closePeerConnection ''b'' a_with_b)
       = closePeerConnection ''b'' a_with_b"
  using closePeerConnection_idempotent [of a_with_b "''c''"]
    closePeerConnection_idempotent [of a_with_b "''b''"]
  by (simp add: a_with_b_connections)

section \<open>Local media toggles\<close>











section \<open>Sending a signal\<close>

lemma sendSignal_thrown:
  assumes "roomId s = Some r" "r \<noteq> []" "user s = Some u"
    and "insert_signal pf \<lparr>room_id = r, from_user_id = u, to_user_id = t,
           signal_type = ty, signal_data = d\<rparr> = Thrown m"
  shows "console (sendSignal pf t ty d s) = console s @ [ConsoleError [''Error sending signal:'', m]]"
    and "webrtc_signals (sendSignal pf t ty d s) = webrtc_signals s"
  using assms by (simp_all add: sendSignal_def console_error_def Let_def)

text \<open>
  C7, at the failing input. User a sends an offer to b and the insert resolves with an
  error instead of rejecting: the envelope is handed to the transport once and is not
  stored, and nothing is written to the console, where the claim has the error logged.
\<close>

theorem sendSignal_returned_error_not_logged:
  "console (sendSignal insert_refused ''b'' ''offer'' ''offer-sdp'' (joined ''a'')) = []
   \<and> webrtc_signals (sendSignal insert_refused ''b'' ''offer'' ''offer-sdp'' (joined ''a'')) = []
   \<and> insert_calls (sendSignal insert_refused ''b'' ''offer'' ''offer-sdp'' (joined ''a'')) =
       [\<lparr>room_id = ''room'', from_user_id = ''a'', to_user_id = ''b'',
         signal_type = ''offer'', signal_data = ''offer-sdp''\<rparr>]"
  by (simp add: sendSignal_def insert_refused_def accepting_def joined_def Let_def)

section \<open>Inbound ICE candidates\<close>

lemma handleAnswer_frame:
  "peerConnectionsRef (handleAnswer pf u d s) = peerConnectionsRef s"
  "next_pc (handleAnswer pf u d s) = next_pc s"
  "localStreamRef (handleAnswer pf u d s) = localStreamRef s"
  "user (handleAnswer pf u d s) = user s"
  "timers (handleAnswer pf u d s) = timers s"
  "insert_calls (handleAnswer pf u d s) = insert_calls s"
  by (simp_all add: handleAnswer_def console_log_def console_error_def update_pc_def Let_def
        split: option.splits)

lemma handleIceCandidate_frame:
  "peerConnectionsRef (handleIceCandidate pf u d s) = peerConnectionsRef s"
  "next_pc (handleIceCandidate pf u d s) = next_pc s"
  "localStreamRef (handleIceCandidate pf u d s) = localStreamRef s"
  "user (handleIceCandidate pf u d s) = user s"
  "timers (handleIceCandidate pf u d s) = timers s"
  "insert_calls (handleIceCandidate pf u d s) = insert_calls s"
  by (simp_all add: handleIceCandidate_def console_log_def console_error_def update_pc_def Let_def
        split: option.splits)

lemma handleAnswer_candidates:
  "addedCandidates (pcs (handleAnswer pf u d s) h) = addedCandidates (pcs s h)"
  by (simp add: handleAnswer_def console_log_def console_error_def update_pc_def Let_def
        split: option.splits)

lemma handleOffer_candidates:
  "map_of (peerConnectionsRef s) u \<noteq> None \<Longrightarrow>
   addedCandidates (pcs (handleOffer pf u d s) h) = addedCandidates (pcs s h)"
  by (auto simp add: handleOffer_def console_log_def console_error_def update_pc_def Let_def
        sendSignal_frame split: option.splits)

lemma handleIceCandidate_early:
  "map_of (peerConnectionsRef s) u = None
   \<or> (\<exists>h. map_of (peerConnectionsRef s) u = Some h \<and> remoteDescription (pcs s h) = None) \<Longrightarrow>
   handleIceCandidate pf u c s = console_log [''Handling ICE candidate from:'', u] s"
  by (auto simp: handleIceCandidate_def console_log_def Let_def split: option.splits)

lemma handleIceCandidate_late:
  assumes "map_of (peerConnectionsRef s) u = Some h" "remoteDescription (pcs s h) \<noteq> None"
    "addIceCandidate_ok pf (pcs s h) c"
  shows "pcs (handleIceCandidate pf u c s) =
           (pcs s)(h := (pcs s h)\<lparr>addedCandidates := addedCandidates (pcs s h) @ [c]\<rparr>)"
  using assms
  by (auto simp: handleIceCandidate_def console_log_def update_pc_def Let_def split: option.splits)

lemma candidates_in_order:
  assumes "map_of (peerConnectionsRef s) u = Some h" "remoteDescription (pcs s h) \<noteq> None"
    "\<forall>pc x. addIceCandidate_ok pf pc x"
  shows "addedCandidates (pcs (fold (handleIceCandidate pf u) cs s) h) =
           addedCandidates (pcs s h) @ cs"
  using assms
proof (induction cs arbitrary: s)
  case Nil
  then show ?case by simp
next
  case (Cons c cs)
  let ?s1 = "handleIceCandidate pf u c s"
  have step: "pcs ?s1 = (pcs s)(h := (pcs s h)\<lparr>addedCandidates := addedCandidates (pcs s h) @ [c]\<rparr>)"
    using Cons.prems by (simp add: handleIceCandidate_late)
  have "map_of (peerConnectionsRef ?s1) u = Some h"
    using Cons.prems by (simp add: handleIceCandidate_frame)
  moreover have "remoteDescription (pcs ?s1 h) \<noteq> None"
    using Cons.prems step by simp
  ultimately have "addedCandidates (pcs (fold (handleIceCandidate pf u) cs ?s1) h) =
      addedCandidates (pcs ?s1 h) @ cs"
    using Cons.IH Cons.prems(3) by blast
  then show ?case using step by simp
qed


lemma a_with_b_pc:
  "pcs a_with_b 0 =
     (new_pc [0, 1] (RetryHandler ''b'' ''b''))\<lparr>localDescription := Some ''offer-sdp''\<rparr>"
  by (simp add: a_with_b_def setParticipants_def reconcile_def joined_def member_def
        createPeerConnection_begin_def createPeerConnection_resume_def console_log_def
        accepting_def update_pc_def sendSignal_frame Let_def)

lemma a_answered_connections: "peerConnectionsRef a_answered = [(''b'', 0)]"
  by (simp add: a_answered_def handleSignal_def answer_from_b_def handleAnswer_frame
        console_log_def a_with_b_connections Let_def)

lemma a_answered_pc:
  "remoteDescription (pcs a_answered 0) = Some ''answer-sdp''
   \<and> addedCandidates (pcs a_answered 0) = []"
  by (simp add: a_answered_def handleSignal_def answer_from_b_def handleAnswer_def
        console_log_def a_with_b_connections a_with_b_pc Let_def update_pc_def
        accepting_def new_pc_def)

text \<open>
  C1 as the code has it. A candidate that arrives while the sender has no connection, or
  while the remote description of the sender's connection is not set, is not applied and
  not kept: the handler writes its log line and changes nothing else. Setting the remote
  description afterwards (\<open>handleAnswer\<close>, \<open>handleOffer\<close>) applies no candidate.
  Candidates that arrive once the remote description is set are handed to the engine in
  their order of receipt, none left out when the engine accepts them.
\<close>

theorem early_candidate_not_buffered:
  "(map_of (peerConnectionsRef s) u = None
      \<or> (\<exists>h. map_of (peerConnectionsRef s) u = Some h \<and> remoteDescription (pcs s h) = None)
    \<longrightarrow> handleIceCandidate pf u c s = console_log [''Handling ICE candidate from:'', u] s)
   \<and> (\<forall>h. addedCandidates (pcs (handleAnswer pf u d s) h) = addedCandidates (pcs s h))
   \<and> (\<forall>h. map_of (peerConnectionsRef s) u \<noteq> None \<longrightarrow>
          addedCandidates (pcs (handleOffer pf u d s) h) = addedCandidates (pcs s h))
   \<and> (\<forall>h. map_of (peerConnectionsRef s) u = Some h \<and> remoteDescription (pcs s h) \<noteq> None
            \<and> (\<forall>pc x. addIceCandidate_ok pf pc x) \<longrightarrow>
          addedCandidates (pcs (fold (handleIceCandidate pf u) cs s) h) =
            addedCandidates (pcs s h) @ cs)"
  using handleIceCandidate_early [of s u pf c] handleAnswer_candidates [of pf u d s]
    handleOffer_candidates [of s u pf d] candidates_in_order [of s u _ pf cs]
  by blast

theorem early_candidate_not_buffered_witness:
  "map_of (peerConnectionsRef a_with_b) ''b'' = Some 0
   \<and> remoteDescription (pcs a_with_b 0) = None
   \<and> handleIceCandidate accepting ''b'' ''candidate-1'' a_with_b
       = console_log [''Handling ICE candidate from:'', ''b''] a_with_b
   \<and> map_of (peerConnectionsRef a_answered) ''b'' = Some 0
   \<and> remoteDescription (pcs a_answered 0) \<noteq> None
   \<and> (\<forall>pc x. addIceCandidate_ok accepting pc x)
   \<and> addedCandidates
       (pcs (fold (handleIceCandidate accepting ''b'') [''candidate-1'', ''candidate-2''] a_answered) 0)
       = [''candidate-1'', ''candidate-2'']"
proof -
  have early: "map_of (peerConnectionsRef a_with_b) ''b'' = Some 0
      \<and> remoteDescription (pcs a_with_b 0) = None"
    by (simp add: a_with_b_connections a_with_b_pc new_pc_def)
  have late: "map_of (peerConnectionsRef a_answered) ''b'' = Some 0
      \<and> remoteDescription (pcs a_answered 0) \<noteq> None
      \<and> (\<forall>pc x. addIceCandidate_ok accepting pc x)"
    by (simp add: a_answered_connections a_answered_pc accepting_def)
  show ?thesis
    using early late a_answered_pc
      early_candidate_not_buffered [of a_with_b "''b''" accepting "''candidate-1''"]
      early_candidate_not_buffered
        [of a_answered "''b''" accepting _ _ "[''candidate-1'', ''candidate-2'']"]
    by simp
qed

text \<open>
  C1 as stated fails. User a has offered to b, so the remote description of the
  connection is not set; b's candidate arrives, then b's answer. The answer sets the
  remote description, and the candidate received before it has not been applied: the
  list of applied candidates is empty.
\<close>

theorem early_candidate_dropped_counterexample:
  "remoteDescription (pcs a_with_b 0) = None
   \<and> remoteDescription
       (pcs (handleSignal accepting answer_from_b
               (handleSignal accepting candidate_from_b a_with_b)) 0)
       = Some ''answer-sdp''
   \<and> addedCandidates
       (pcs (handleSignal accepting answer_from_b
               (handleSignal accepting candidate_from_b a_with_b)) 0)
       = []"
  by (simp add: handleSignal_def candidate_from_b_def answer_from_b_def handleIceCandidate_def
       handleAnswer_def console_log_def a_with_b_connections a_with_b_pc Let_def update_pc_def
       accepting_def new_pc_def)

section \<open>Envelopes from a participant whose connection was closed\<close>

lemma handleSignal_not_offer:
  "signal_type e \<noteq> ''offer'' \<Longrightarrow>
   peerConnectionsRef (handleSignal pf e s) = peerConnectionsRef s"
  by (simp add: handleSignal_def Let_def handleAnswer_frame handleIceCandidate_frame
        console_log_def)

lemma fold_handleSignal_not_offer:
  "\<forall>e \<in> set es. signal_type e \<noteq> ''offer'' \<Longrightarrow>
   peerConnectionsRef (fold (handleSignal pf) es s) = peerConnectionsRef s"
  by (induction es arbitrary: s) (simp_all add: handleSignal_not_offer)

lemma closed_absent: "map_of (peerConnectionsRef (closePeerConnection u s)) u = None"
  by (simp add: closePeerConnection_def AList.delete_conv split: option.splits)

lemma handleSignal_answer_absent:
  "map_of (peerConnectionsRef s) u = None \<Longrightarrow> signal_type e = ''answer'' \<Longrightarrow>
   from_user_id e = u \<Longrightarrow>
   handleSignal pf e s =
     console_log [''Handling answer from:'', u]
       (console_log [''Received signal:'', ''answer'', ''from:'', u] s)"
  by (simp add: handleSignal_def handleAnswer_def Let_def console_log_def)

lemma handleSignal_candidate_absent:
  "map_of (peerConnectionsRef s) u = None \<Longrightarrow> signal_type e = ''ice-candidate'' \<Longrightarrow>
   from_user_id e = u \<Longrightarrow>
   handleSignal pf e s =
     console_log [''Handling ICE candidate from:'', u]
       (console_log [''Received signal:'', ''ice-candidate'', ''from:'', u] s)"
  by (simp add: handleSignal_def handleIceCandidate_def Let_def console_log_def)

lemma handleOffer_creates:
  assumes "map_of (peerConnectionsRef s) u = None" "localStreamRef s \<noteq> None" "user s \<noteq> None"
    "construct_ok pf (next_pc s)"
  shows "map_of (peerConnectionsRef (handleOffer pf u d s)) u = Some (next_pc s)"
  using assms
  by (auto simp: handleOffer_def Let_def console_log_def console_error_def update_pc_def
        sendSignal_frame update_conv split: option.splits)

lemma closePeerConnection_frame:
  "localStreamRef (closePeerConnection u s) = localStreamRef s"
  "user (closePeerConnection u s) = user s"
  "next_pc (closePeerConnection u s) = next_pc s"
  "roomId (closePeerConnection u s) = roomId s"
  "isInitializedRef (closePeerConnection u s) = isInitializedRef s"
  "participants (closePeerConnection u s) = participants s"
  "timers (closePeerConnection u s) = timers s"
  by (simp_all add: closePeerConnection_def split: option.splits)

lemma handleSignal_offer_after_close:
  assumes "signal_type e = ''offer''" "from_user_id e = u" "localStreamRef s \<noteq> None"
    "user s \<noteq> None" "construct_ok pf (next_pc s)"
  shows "map_of (peerConnectionsRef (handleSignal pf e (closePeerConnection u s))) u
           = Some (next_pc s)"
proof -
  let ?s1 = "console_log [''Received signal:'', signal_type e, ''from:'', from_user_id e]
               (closePeerConnection u s)"
  have "map_of (peerConnectionsRef ?s1) u = None" "localStreamRef ?s1 \<noteq> None"
    "user ?s1 \<noteq> None" "construct_ok pf (next_pc ?s1)"
    using assms by (simp_all add: console_log_def closed_absent closePeerConnection_frame)
  then have "map_of (peerConnectionsRef (handleOffer pf u (signal_data e) ?s1)) u
      = Some (next_pc ?s1)"
    by (rule handleOffer_creates)
  then show ?thesis
    using assms by (simp add: handleSignal_def Let_def console_log_def closePeerConnection_frame)
qed

lemma a_with_b_next: "next_pc a_with_b = 1 \<and> user a_with_b = Some ''a''"
  by (simp add: a_with_b_def setParticipants_def reconcile_def joined_def member_def
        createPeerConnection_begin_def createPeerConnection_resume_def console_log_def
        accepting_def update_pc_def sendSignal_frame Let_def)

text \<open>
  C5 as the code has it. After \<open>closePeerConnection\<close> the participant has no entry in
  the connection map. An answer or an ice-candidate envelope from that participant is
  logged and dropped: the session is unchanged but for the two log lines, and no sequence
  of envelopes other than offers changes the connection map. An offer envelope from that
  participant is not dropped: when the session has local media and a user and the engine
  constructs the connection, \<open>handleOffer\<close> puts a new connection for the participant
  into the map.
\<close>

theorem closed_connection_envelopes:
  "map_of (peerConnectionsRef (closePeerConnection u s)) u = None
   \<and> (signal_type e = ''answer'' \<and> from_user_id e = u \<longrightarrow>
        handleSignal pf e (closePeerConnection u s) =
          console_log [''Handling answer from:'', u]
            (console_log [''Received signal:'', ''answer'', ''from:'', u]
               (closePeerConnection u s)))
   \<and> (signal_type e = ''ice-candidate'' \<and> from_user_id e = u \<longrightarrow>
        handleSignal pf e (closePeerConnection u s) =
          console_log [''Handling ICE candidate from:'', u]
            (console_log [''Received signal:'', ''ice-candidate'', ''from:'', u]
               (closePeerConnection u s)))
   \<and> ((\<forall>x \<in> set es. signal_type x \<noteq> ''offer'') \<longrightarrow>
        peerConnectionsRef (fold (handleSignal pf) es (closePeerConnection u s))
          = peerConnectionsRef (closePeerConnection u s))
   \<and> (signal_type e = ''offer'' \<and> from_user_id e = u \<and> localStreamRef s \<noteq> None
        \<and> user s \<noteq> None \<and> construct_ok pf (next_pc s) \<longrightarrow>
        map_of (peerConnectionsRef (handleSignal pf e (closePeerConnection u s))) u
          = Some (next_pc s))"
  using closed_absent [of u s]
    handleSignal_answer_absent [of "closePeerConnection u s" u e pf]
    handleSignal_candidate_absent [of "closePeerConnection u s" u e pf]
    fold_handleSignal_not_offer [of es pf "closePeerConnection u s"]
    handleSignal_offer_after_close [of e u s pf]
  by blast

theorem closed_connection_envelopes_witness:
  "handleSignal accepting answer_from_b (closePeerConnection ''b'' a_with_b) =
     console_log [''Handling answer from:'', ''b'']
       (console_log [''Received signal:'', ''answer'', ''from:'', ''b'']
          (closePeerConnection ''b'' a_with_b))
   \<and> handleSignal accepting candidate_from_b (closePeerConnection ''b'' a_with_b) =
     console_log [''Handling ICE candidate from:'', ''b'']
       (console_log [''Received signal:'', ''ice-candidate'', ''from:'', ''b'']
          (closePeerConnection ''b'' a_with_b))
   \<and> peerConnectionsRef (fold (handleSignal accepting) [candidate_from_b, answer_from_b]
        (closePeerConnection ''b'' a_with_b)) = []
   \<and> map_of (peerConnectionsRef (handleSignal accepting offer_from_b
        (closePeerConnection ''b'' a_with_b))) ''b'' = Some 1"
proof -
  have closed: "peerConnectionsRef (closePeerConnection ''b'' a_with_b) = []"
    by (simp add: closePeerConnection_def a_with_b_connections)
  have pre: "localStreamRef a_with_b \<noteq> None \<and> user a_with_b \<noteq> None
      \<and> construct_ok accepting (next_pc a_with_b)"
    by (simp add: a_with_b_stream a_with_b_next accepting_def)
  show ?thesis
    using closed pre a_with_b_next
      closed_connection_envelopes [of "''b''" a_with_b answer_from_b accepting
        "[candidate_from_b, answer_from_b]"]
      closed_connection_envelopes [of "''b''" a_with_b candidate_from_b accepting "[]"]
      closed_connection_envelopes [of "''b''" a_with_b offer_from_b accepting "[]"]
    by (simp add: answer_from_b_def candidate_from_b_def offer_from_b_def)
qed

text \<open>
  C5 as stated fails. User a closes the connection to b; b's offer arrives afterwards and
  b has an entry in the map again, a new connection that is not closed.
\<close>

theorem closed_connection_recreated_counterexample:
  "map_of (peerConnectionsRef (closePeerConnection ''b'' a_with_b)) ''b'' = None
   \<and> map_of (peerConnectionsRef
        (handleSignal accepting offer_from_b (closePeerConnection ''b'' a_with_b))) ''b'' = Some 1
   \<and> \<not> isClosed (pcs (handleSignal accepting offer_from_b (closePeerConnection ''b'' a_with_b)) 1)"
  by (simp add: closePeerConnection_def a_with_b_connections a_with_b_stream a_with_b_next
        handleSignal_def offer_from_b_def handleOffer_def console_log_def Let_def accepting_def
        update_pc_def sendSignal_frame new_pc_def)

section \<open>Who offers\<close>

lemma createPeerConnection_offers:
  assumes "localStreamRef s = Some ts" "user s = Some u" "roomId s = Some r" "r \<noteq> []"
    and "construct_ok pf (next_pc s)"
    and "createOffer pf (new_pc ts (RetryHandler p n)) = Some offer"
    and "setLocalDescription_ok pf (new_pc ts (RetryHandler p n)) offer"
  shows "insert_calls (createPeerConnection pf p n s) =
           insert_calls s @ [\<lparr>room_id = r, from_user_id = u, to_user_id = p,
                              signal_type = ''offer'', signal_data = offer\<rparr>]
         \<and> map_of (peerConnectionsRef (createPeerConnection pf p n s)) p = Some (next_pc s)
         \<and> pcs (createPeerConnection pf p n s) (next_pc s) =
             (new_pc ts (RetryHandler p n))\<lparr>localDescription := Some offer\<rparr>"
  using assms
  by (simp add: createPeerConnection_def createPeerConnection_begin_def
        createPeerConnection_resume_def console_log_def update_pc_def sendSignal_def Let_def
        console_error_def update_conv split: insert_result.splits)

lemma both_offer:
  "insert_calls a_with_b = [\<lparr>room_id = ''room'', from_user_id = ''a'', to_user_id = ''b'',
       signal_type = ''offer'', signal_data = ''offer-sdp''\<rparr>]
  \<and> insert_calls b_with_a = [\<lparr>room_id = ''room'', from_user_id = ''b'', to_user_id = ''a'',
       signal_type = ''offer'', signal_data = ''offer-sdp''\<rparr>]"
  by (simp add: a_with_b_def b_with_a_def eval_defs)


section \<open>Glare\<close>

lemma handleOffer_existing:
  assumes "map_of (peerConnectionsRef s) f = Some h" "localStreamRef s \<noteq> None"
    "user s = Some u" "roomId s = Some r" "r \<noteq> []"
    "setRemoteDescription_ok pf (pcs s h) offer"
    "createAnswer pf ((pcs s h)\<lparr>remoteDescription := Some offer\<rparr>) = Some answer"
    "setLocalDescription_ok pf ((pcs s h)\<lparr>remoteDescription := Some offer\<rparr>) answer"
  shows "pcs (handleOffer pf f offer s) h =
           (pcs s h)\<lparr>remoteDescription := Some offer, localDescription := Some answer\<rparr>"
    and "insert_calls (handleOffer pf f offer s) =
           insert_calls s @ [\<lparr>room_id = r, from_user_id = u, to_user_id = f,
                              signal_type = ''answer'', signal_data = answer\<rparr>]"
  using assms
  by (auto simp add: handleOffer_def console_log_def update_pc_def sendSignal_def Let_def
        console_error_def split: insert_result.splits)

lemma handleOffer_rejected:
  assumes "map_of (peerConnectionsRef s) f = Some h" "localStreamRef s \<noteq> None"
    "user s = Some u" "\<not> setRemoteDescription_ok pf (pcs s h) offer"
  shows "handleOffer pf f offer s =
           console_error [''Error handling offer:'', ''setRemoteDescription'']
             (console_log [''Handling offer from:'', f] s)"
  using assms
  by (auto simp add: handleOffer_def console_log_def Let_def)

lemma handleOffer_local_id:
  "user s \<noteq> None \<Longrightarrow>
   pcs (handleOffer pf f offer (s\<lparr>user := Some u'\<rparr>)) = pcs (handleOffer pf f offer s)
   \<and> peerConnectionsRef (handleOffer pf f offer (s\<lparr>user := Some u'\<rparr>))
       = peerConnectionsRef (handleOffer pf f offer s)"
  by (auto simp add: handleOffer_def console_log_def update_pc_def sendSignal_frame Let_def
        console_error_def split: option.splits)

lemma b_with_a_facts:
  "peerConnectionsRef b_with_a = [(''a'', 0)]"
  "pcs b_with_a 0 = (new_pc [0, 1] (RetryHandler ''a'' ''a''))\<lparr>localDescription := Some ''offer-sdp''\<rparr>"
  "localStreamRef b_with_a = Some [0, 1]" "user b_with_a = Some ''b''"
  "roomId b_with_a = Some ''room''"
  "insert_calls b_with_a = [\<lparr>room_id = ''room'', from_user_id = ''b'', to_user_id = ''a'',
       signal_type = ''offer'', signal_data = ''offer-sdp''\<rparr>]"
  by (simp_all add: b_with_a_def eval_defs)

lemma console_log_frame:
  "peerConnectionsRef (console_log x s) = peerConnectionsRef s"
  "pcs (console_log x s) = pcs s"
  "next_pc (console_log x s) = next_pc s"
  "localStreamRef (console_log x s) = localStreamRef s"
  "user (console_log x s) = user s"
  "roomId (console_log x s) = roomId s"
  "insert_calls (console_log x s) = insert_calls s"
  "timers (console_log x s) = timers s"
  by (simp_all add: console_log_def)

lemma handleSignal_offer:
  "signal_type e = ''offer'' \<Longrightarrow>
   handleSignal pf e s =
     handleOffer pf (from_user_id e) (signal_data e)
       (console_log [''Received signal:'', ''offer'', ''from:'', from_user_id e] s)"
  by (simp add: handleSignal_def Let_def)


lemma handleOffer_dropped:
  "localStreamRef s = None \<or> user s = None \<Longrightarrow> handleOffer pf f offer s = s"
  by (auto simp: handleOffer_def split: option.splits)

lemma handleOffer_existing_map:
  assumes "map_of (peerConnectionsRef s) f = Some h"
  shows "peerConnectionsRef (handleOffer pf f offer s) = peerConnectionsRef s"
    and "next_pc (handleOffer pf f offer s) = next_pc s"
  using assms
  by (auto simp add: handleOffer_def console_log_def update_pc_def sendSignal_frame Let_def
        console_error_def split: option.splits)

lemma handleOffer_new:
  assumes "map_of (peerConnectionsRef s) f = None" "localStreamRef s = Some ts"
    "user s = Some u" "roomId s = Some r" "r \<noteq> []" "construct_ok pf (next_pc s)"
    "setRemoteDescription_ok pf (new_pc ts (LogHandler f)) offer"
    "createAnswer pf ((new_pc ts (LogHandler f))\<lparr>remoteDescription := Some offer\<rparr>) = Some answer"
    "setLocalDescription_ok pf ((new_pc ts (LogHandler f))\<lparr>remoteDescription := Some offer\<rparr>) answer"
  shows "peerConnectionsRef (handleOffer pf f offer s) = AList.update f (next_pc s) (peerConnectionsRef s)"
    and "next_pc (handleOffer pf f offer s) = Suc (next_pc s)"
    and "pcs (handleOffer pf f offer s) (next_pc s) =
           (new_pc ts (LogHandler f))\<lparr>remoteDescription := Some offer, localDescription := Some answer\<rparr>"
    and "insert_calls (handleOffer pf f offer s) =
           insert_calls s @ [\<lparr>room_id = r, from_user_id = u, to_user_id = f,
                              signal_type = ''answer'', signal_data = answer\<rparr>]"
  using assms
  by (auto simp add: handleOffer_def console_log_def update_pc_def sendSignal_def Let_def
        console_error_def split: insert_result.splits)

lemma handleOffer_new_rejected:
  assumes "map_of (peerConnectionsRef s) f = None" "localStreamRef s = Some ts"
    "user s = Some u" "construct_ok pf (next_pc s)"
    "\<not> setRemoteDescription_ok pf (new_pc ts (LogHandler f)) offer"
  shows "handleOffer pf f offer s =
           console_error [''Error handling offer:'', ''setRemoteDescription'']
             ((console_log [''Handling offer from:'', f] s)
                \<lparr>pcs := (pcs s)(next_pc s := new_pc ts (LogHandler f)),
                 next_pc := Suc (next_pc s),
                 peerConnectionsRef := AList.update f (next_pc s) (peerConnectionsRef s)\<rparr>)"
  using assms
  by (auto simp add: handleOffer_def console_log_def Let_def)

lemma handleOffer_construct_fails:
  assumes "map_of (peerConnectionsRef s) f = None" "localStreamRef s = Some ts"
    "user s = Some u" "\<not> construct_ok pf (next_pc s)"
  shows "handleOffer pf f offer s =
           console_error [''Error handling offer:'', ''RTCPeerConnection'']
             (console_log [''Handling offer from:'', f] s)"
  using assms
  by (auto simp add: handleOffer_def console_log_def Let_def)

text \<open>
  C2 as the code has it. \<open>handleOffer\<close> compares no ids and looks at no negotiation
  state. Without local media or a user the offer is dropped and the session stays as it
  is. Otherwise the offer goes to the sender's connection, whatever its descriptions, or,
  if the sender has none, to a connection that is constructed and put into the map: when
  the engine accepts the offer, creates an answer and accepts it, the offer becomes the
  remote description, the answer the local description, and one answer envelope is handed
  to the transport. When the engine refuses the offer, the error is logged and nothing is
  sent; an existing connection is unchanged, a connection just constructed for a new
  sender stays in the map. When the connection cannot be constructed, only the error is
  logged. The connections after \<open>handleOffer\<close> are the same whatever the local user's id
  is.
\<close>

theorem handleOffer_ignores_ids:
  "(localStreamRef s = None \<or> user s = None \<longrightarrow> handleOffer pf f offer s = s)
   \<and> (\<forall>h u r. map_of (peerConnectionsRef s) f = Some h \<and> localStreamRef s \<noteq> None
        \<and> user s = Some u \<and> roomId s = Some r \<and> r \<noteq> []
        \<and> setRemoteDescription_ok pf (pcs s h) offer
        \<and> createAnswer pf ((pcs s h)\<lparr>remoteDescription := Some offer\<rparr>) = Some answer
        \<and> setLocalDescription_ok pf ((pcs s h)\<lparr>remoteDescription := Some offer\<rparr>) answer
      \<longrightarrow> pcs (handleOffer pf f offer s) h =
            (pcs s h)\<lparr>remoteDescription := Some offer, localDescription := Some answer\<rparr>
          \<and> peerConnectionsRef (handleOffer pf f offer s) = peerConnectionsRef s
          \<and> next_pc (handleOffer pf f offer s) = next_pc s
          \<and> insert_calls (handleOffer pf f offer s) =
              insert_calls s @ [\<lparr>room_id = r, from_user_id = u, to_user_id = f,
                                 signal_type = ''answer'', signal_data = answer\<rparr>])
   \<and> (\<forall>h u. map_of (peerConnectionsRef s) f = Some h \<and> localStreamRef s \<noteq> None
        \<and> user s = Some u \<and> \<not> setRemoteDescription_ok pf (pcs s h) offer
      \<longrightarrow> handleOffer pf f offer s =
            console_error [''Error handling offer:'', ''setRemoteDescription'']
              (console_log [''Handling offer from:'', f] s))
   \<and> (\<forall>ts u r. map_of (peerConnectionsRef s) f = None \<and> localStreamRef s = Some ts
        \<and> user s = Some u \<and> roomId s = Some r \<and> r \<noteq> [] \<and> construct_ok pf (next_pc s)
        \<and> setRemoteDescription_ok pf (new_pc ts (LogHandler f)) offer
        \<and> createAnswer pf ((new_pc ts (LogHandler f))\<lparr>remoteDescription := Some offer\<rparr>)
            = Some answer
        \<and> setLocalDescription_ok pf
            ((new_pc ts (LogHandler f))\<lparr>remoteDescription := Some offer\<rparr>) answer
      \<longrightarrow> peerConnectionsRef (handleOffer pf f offer s)
            = AList.update f (next_pc s) (peerConnectionsRef s)
          \<and> next_pc (handleOffer pf f offer s) = Suc (next_pc s)
          \<and> pcs (handleOffer pf f offer s) (next_pc s) =
              (new_pc ts (LogHandler f))\<lparr>remoteDescription := Some offer,
                                           localDescription := Some answer\<rparr>
          \<and> insert_calls (handleOffer pf f offer s) =
              insert_calls s @ [\<lparr>room_id = r, from_user_id = u, to_user_id = f,
                                 signal_type = ''answer'', signal_data = answer\<rparr>])
   \<and> (\<forall>ts u. map_of (peerConnectionsRef s) f = None \<and> localStreamRef s = Some ts
        \<and> user s = Some u \<and> construct_ok pf (next_pc s)
        \<and> \<not> setRemoteDescription_ok pf (new_pc ts (LogHandler f)) offer
      \<longrightarrow> handleOffer pf f offer s =
            console_error [''Error handling offer:'', ''setRemoteDescription'']
              ((console_log [''Handling offer from:'', f] s)
                 \<lparr>pcs := (pcs s)(next_pc s := new_pc ts (LogHandler f)),
                  next_pc := Suc (next_pc s),
                  peerConnectionsRef := AList.update f (next_pc s) (peerConnectionsRef s)\<rparr>))
   \<and> (\<forall>ts u. map_of (peerConnectionsRef s) f = None \<and> localStreamRef s = Some ts
        \<and> user s = Some u \<and> \<not> construct_ok pf (next_pc s)
      \<longrightarrow> handleOffer pf f offer s =
            console_error [''Error handling offer:'', ''RTCPeerConnection'']
              (console_log [''Handling offer from:'', f] s))
   \<and> (\<forall>u'. user s \<noteq> None \<longrightarrow>
         pcs (handleOffer pf f offer (s\<lparr>user := Some u'\<rparr>)) = pcs (handleOffer pf f offer s)
         \<and> peerConnectionsRef (handleOffer pf f offer (s\<lparr>user := Some u'\<rparr>))
             = peerConnectionsRef (handleOffer pf f offer s))"
  (is "?dropped \<and> ?existing \<and> ?refused \<and> ?fresh \<and> ?fresh_refused \<and> ?no_engine \<and> ?ids")
proof (intro conjI)
  show ?dropped
    using handleOffer_dropped [of s pf f offer] by blast
  show ?existing
    using handleOffer_existing [of s f _ _ _ pf offer answer]
      handleOffer_existing_map [of s f _ pf offer] by blast
  show ?refused
    using handleOffer_rejected [of s f _ _ pf offer] by blast
  show ?fresh
    using handleOffer_new [of s f _ _ _ pf offer answer] by blast
  show ?fresh_refused
    using handleOffer_new_rejected [of s f _ _ pf offer] by blast
  show ?no_engine
    using handleOffer_construct_fails [of s f _ _ pf offer] by blast
  show ?ids
    using handleOffer_local_id [of s pf f offer] by blast
qed

theorem handleOffer_ignores_ids_witness:
  "map_of (peerConnectionsRef b_with_a) ''a'' = Some 0
   \<and> localDescription (pcs b_with_a 0) = Some ''offer-sdp''
   \<and> pcs (handleOffer accepting ''a'' ''offer-sdp'' b_with_a) 0 =
       (pcs b_with_a 0)\<lparr>remoteDescription := Some ''offer-sdp'',
                         localDescription := Some ''answer-sdp''\<rparr>
   \<and> insert_calls (handleOffer accepting ''a'' ''offer-sdp'' b_with_a) =
       insert_calls b_with_a @ [\<lparr>room_id = ''room'', from_user_id = ''b'', to_user_id = ''a'',
                                  signal_type = ''answer'', signal_data = ''answer-sdp''\<rparr>]
   \<and> handleOffer refusing_offers ''a'' ''offer-sdp'' b_with_a =
       console_error [''Error handling offer:'', ''setRemoteDescription'']
         (console_log [''Handling offer from:'', ''a''] b_with_a)
   \<and> map_of (peerConnectionsRef (joined ''a'')) ''b'' = None
   \<and> peerConnectionsRef (handleOffer accepting ''b'' ''offer-sdp'' (joined ''a'')) = [(''b'', 0)]
   \<and> insert_calls (handleOffer accepting ''b'' ''offer-sdp'' (joined ''a'')) =
       [\<lparr>room_id = ''room'', from_user_id = ''a'', to_user_id = ''b'',
         signal_type = ''answer'', signal_data = ''answer-sdp''\<rparr>]
   \<and> peerConnectionsRef (handleOffer refusing_offers ''b'' ''offer-sdp'' (joined ''a''))
       = [(''b'', 0)]
   \<and> insert_calls (handleOffer refusing_offers ''b'' ''offer-sdp'' (joined ''a'')) = []
   \<and> peerConnectionsRef (handleOffer no_engine ''b'' ''offer-sdp'' (joined ''a'')) = []
   \<and> handleOffer accepting ''b'' ''offer-sdp'' ((joined ''a'')\<lparr>localStreamRef := None\<rparr>)
       = (joined ''a'')\<lparr>localStreamRef := None\<rparr>
   \<and> pcs (handleOffer accepting ''a'' ''offer-sdp'' (b_with_a\<lparr>user := Some ''0''\<rparr>))
       = pcs (handleOffer accepting ''a'' ''offer-sdp'' b_with_a)"
proof -
  have b: "map_of (peerConnectionsRef b_with_a) ''a'' = Some 0" "localStreamRef b_with_a \<noteq> None"
    "user b_with_a = Some ''b''" "roomId b_with_a = Some ''room''"
    "localDescription (pcs b_with_a 0) = Some ''offer-sdp''"
    by (simp_all add: b_with_a_facts)
  have j: "map_of (peerConnectionsRef (joined ''a'')) ''b'' = None"
    "localStreamRef (joined ''a'') = Some [0, 1]" "user (joined ''a'') = Some ''a''"
    "roomId (joined ''a'') = Some ''room''" "next_pc (joined ''a'') = 0"
    "peerConnectionsRef (joined ''a'') = []" "insert_calls (joined ''a'') = []"
    by (simp_all add: joined_def)
  have pf: "setRemoteDescription_ok accepting pc d" "createAnswer accepting pc = Some ''answer-sdp''"
    "setLocalDescription_ok accepting pc d" "construct_ok accepting n"
    "\<not> setRemoteDescription_ok refusing_offers pc d" "construct_ok refusing_offers n"
    "\<not> construct_ok no_engine n" for pc d n
    by (simp_all add: accepting_def refusing_offers_def no_engine_def)
  have glare: "pcs (handleOffer accepting ''a'' ''offer-sdp'' b_with_a) 0 =
       (pcs b_with_a 0)\<lparr>remoteDescription := Some ''offer-sdp'',
                         localDescription := Some ''answer-sdp''\<rparr>
     \<and> insert_calls (handleOffer accepting ''a'' ''offer-sdp'' b_with_a) =
       insert_calls b_with_a @ [\<lparr>room_id = ''room'', from_user_id = ''b'', to_user_id = ''a'',
                                  signal_type = ''answer'', signal_data = ''answer-sdp''\<rparr>]
     \<and> pcs (handleOffer accepting ''a'' ''offer-sdp'' (b_with_a\<lparr>user := Some ''0''\<rparr>))
       = pcs (handleOffer accepting ''a'' ''offer-sdp'' b_with_a)"
    using b pf handleOffer_ignores_ids [of b_with_a accepting "''a''" "''offer-sdp''" "''answer-sdp''"]
    by simp
  have refused: "handleOffer refusing_offers ''a'' ''offer-sdp'' b_with_a =
       console_error [''Error handling offer:'', ''setRemoteDescription'']
         (console_log [''Handling offer from:'', ''a''] b_with_a)"
    using b pf
      handleOffer_ignores_ids [of b_with_a refusing_offers "''a''" "''offer-sdp''" "''answer-sdp''"]
    by simp
  have fresh: "peerConnectionsRef (handleOffer accepting ''b'' ''offer-sdp'' (joined ''a'')) = [(''b'', 0)]
     \<and> insert_calls (handleOffer accepting ''b'' ''offer-sdp'' (joined ''a'')) =
       [\<lparr>room_id = ''room'', from_user_id = ''a'', to_user_id = ''b'',
         signal_type = ''answer'', signal_data = ''answer-sdp''\<rparr>]"
    using j pf
      handleOffer_ignores_ids [of "joined ''a''" accepting "''b''" "''offer-sdp''" "''answer-sdp''"]
    by simp
  have fresh_refused: "handleOffer refusing_offers ''b'' ''offer-sdp'' (joined ''a'') =
       console_error [''Error handling offer:'', ''setRemoteDescription'']
         ((console_log [''Handling offer from:'', ''b''] (joined ''a''))
            \<lparr>pcs := (pcs (joined ''a''))(0 := new_pc [0, 1] (LogHandler ''b'')),
             next_pc := Suc 0,
             peerConnectionsRef := AList.update ''b'' 0 []\<rparr>)"
    using j pf
      handleOffer_ignores_ids [of "joined ''a''" refusing_offers "''b''" "''offer-sdp''" "''answer-sdp''"]
    by simp
  have no_engine: "handleOffer no_engine ''b'' ''offer-sdp'' (joined ''a'') =
       console_error [''Error handling offer:'', ''RTCPeerConnection'']
         (console_log [''Handling offer from:'', ''b''] (joined ''a''))"
    using j pf
      handleOffer_ignores_ids [of "joined ''a''" no_engine "''b''" "''offer-sdp''" "''answer-sdp''"]
    by simp
  have dropped: "handleOffer accepting ''b'' ''offer-sdp'' ((joined ''a'')\<lparr>localStreamRef := None\<rparr>)
       = (joined ''a'')\<lparr>localStreamRef := None\<rparr>"
    using handleOffer_ignores_ids [of "(joined ''a'')\<lparr>localStreamRef := None\<rparr>" accepting
         "''b''" "''offer-sdp''" "''answer-sdp''"]
    by simp
  show ?thesis
    using b j glare refused fresh dropped
    by (simp add: fresh_refused no_engine console_error_def console_log_def)
qed

text \<open>
  C2 as stated fails. Both a and b have offered. The side with the larger id, b, is
  locally offering when a's offer arrives; it does not ignore the offer: the offer becomes
  the remote description of b's connection and b sends an answer.
\<close>

theorem glare_counterexample:
  "''a'' < ''b''
   \<and> localDescription (pcs b_with_a 0) = Some ''offer-sdp''
   \<and> remoteDescription (pcs b_with_a 0) = None
   \<and> remoteDescription (pcs (handleSignal accepting offer_from_a b_with_a) 0) = Some ''offer-sdp''
   \<and> localDescription (pcs (handleSignal accepting offer_from_a b_with_a) 0) = Some ''answer-sdp''
   \<and> insert_calls (handleSignal accepting offer_from_a b_with_a) =
       [\<lparr>room_id = ''room'', from_user_id = ''b'', to_user_id = ''a'',
         signal_type = ''offer'', signal_data = ''offer-sdp''\<rparr>,
        \<lparr>room_id = ''room'', from_user_id = ''b'', to_user_id = ''a'',
         signal_type = ''answer'', signal_data = ''answer-sdp''\<rparr>]"
proof -
  let ?s = "console_log [''Received signal:'', ''offer'', ''from:'', ''a''] b_with_a"
  have hs: "handleSignal accepting offer_from_a b_with_a = handleOffer accepting ''a'' ''offer-sdp'' ?s"
    by (simp add: handleSignal_offer offer_from_a_def)
  have pre: "map_of (peerConnectionsRef ?s) ''a'' = Some 0" "localStreamRef ?s \<noteq> None"
    "user ?s = Some ''b''" "roomId ?s = Some ''room''" "''room'' \<noteq> []"
    "setRemoteDescription_ok accepting (pcs ?s 0) ''offer-sdp''"
    "createAnswer accepting ((pcs ?s 0)\<lparr>remoteDescription := Some ''offer-sdp''\<rparr>) = Some ''answer-sdp''"
    "setLocalDescription_ok accepting ((pcs ?s 0)\<lparr>remoteDescription := Some ''offer-sdp''\<rparr>) ''answer-sdp''"
    by (simp_all add: console_log_frame b_with_a_facts accepting_def)
  show ?thesis
    using handleOffer_existing [OF pre]
    by (simp add: hs console_log_frame b_with_a_facts new_pc_def)
qed


section \<open>Retry after a failed connection\<close>

text \<open>
  C3 as the code has it. When the state of a connection made by \<open>createPeerConnection\<close>
  changes to failed or disconnected, one timer with the delay 2000 is appended, whatever
  the session's history: there is no attempt counter and no growth. When the callback
  runs and the participant has no connection, nothing happens; when the participant has
  one (and local media and a user are present and the engine constructs a connection),
  that connection is closed and the participant gets a new one.
\<close>

theorem retry_fixed_delay:
  "(onconnectionstatechange (pcs s h) = RetryHandler p n \<and> (st = Failed \<or> st = Disconnected)
      \<longrightarrow> timers (connectionstatechange h st s) =
            timers s @ [\<lparr>delay_ms = 2000, t_user = p, t_name = n\<rparr>])
   \<and> (map_of (peerConnectionsRef s) (t_user t) = None \<longrightarrow> retry_callback pf t s = s)
   \<and> (\<forall>h0. map_of (peerConnectionsRef s) (t_user t) = Some h0 \<and> h0 < next_pc s
          \<and> localStreamRef s \<noteq> None \<and> user s \<noteq> None \<and> construct_ok pf (next_pc s)
      \<longrightarrow> isClosed (pcs (retry_callback pf t s) h0)
          \<and> map_of (peerConnectionsRef (retry_callback pf t s)) (t_user t) = Some (next_pc s))"
  apply (intro conjI impI allI)
    apply (auto simp: connectionstatechange_def update_pc_def console_log_def Let_def)[1]
   apply (simp add: retry_callback_def)
  apply (auto simp: retry_callback_def createPeerConnection_def createPeerConnection_begin_def
        createPeerConnection_resume_def closePeerConnection_def console_log_def create_failed_def
        toast_def console_error_def update_pc_def sendSignal_frame Let_def rtc_close_def update_conv
        split: option.splits)
  done


lemma connectionstatechange_frame:
  "peerConnectionsRef (connectionstatechange h st s) = peerConnectionsRef s"
  "next_pc (connectionstatechange h st s) = next_pc s"
  "localStreamRef (connectionstatechange h st s) = localStreamRef s"
  "user (connectionstatechange h st s) = user s"
  "roomId (connectionstatechange h st s) = roomId s"
  "insert_calls (connectionstatechange h st s) = insert_calls s"
  "pcs (connectionstatechange h st s) = (pcs s)(h := (pcs s h)\<lparr>connectionState := st\<rparr>)"
  by (simp_all add: connectionstatechange_def update_pc_def console_log_def toast_def Let_def
        split: state_handler.splits)

lemma connectionstatechange_log_only:
  "onconnectionstatechange (pcs s h) = LogHandler f \<Longrightarrow>
   timers (connectionstatechange h st s) = timers s"
  by (simp add: connectionstatechange_def update_pc_def console_log_def Let_def)

lemma connectionstatechange_connected:
  "timers (connectionstatechange h Connected s) = timers s"
  by (simp add: connectionstatechange_def update_pc_def console_log_def toast_def Let_def
        split: state_handler.splits)

lemma connectionstatechange_retry:
  "onconnectionstatechange (pcs s h) = RetryHandler p n \<Longrightarrow> st = Failed \<or> st = Disconnected \<Longrightarrow>
   timers (connectionstatechange h st s) = timers s @ [\<lparr>delay_ms = 2000, t_user = p, t_name = n\<rparr>]"
  by (auto simp: connectionstatechange_def update_pc_def console_log_def Let_def)

lemma a_answering_facts:
  "onconnectionstatechange (pcs a_answering 0) = LogHandler ''b''" "timers a_answering = []"
  by (simp_all add: a_answering_def handleSignal_offer offer_from_b_def handleOffer_def eval_defs)

lemma a_with_b_timers: "timers a_with_b = []"
  by (simp add: a_with_b_def eval_defs)

lemma a_failed_once_facts:
  "timers a_failed_once = [\<lparr>delay_ms = 2000, t_user = ''b'', t_name = ''b''\<rparr>]"
  "peerConnectionsRef a_failed_once = [(''b'', 0)]"
  "localStreamRef a_failed_once = Some [0, 1]" "user a_failed_once = Some ''a''"
  "next_pc a_failed_once = 1"
  by (simp_all add: a_failed_once_def connectionstatechange_frame connectionstatechange_connected
        connectionstatechange_retry a_with_b_pc new_pc_def a_with_b_timers a_with_b_connections
        a_with_b_stream a_with_b_next)

lemma a_retried_facts:
  "timers (fire_timer accepting a_failed_once) = []"
  "onconnectionstatechange (pcs (fire_timer accepting a_failed_once) 1) = RetryHandler ''b'' ''b''"
  "map_of (peerConnectionsRef (fire_timer accepting a_failed_once)) ''b'' = Some 1"
  by (simp_all add: fire_timer_def retry_callback_def a_failed_once_facts closePeerConnection_def
        createPeerConnection_def createPeerConnection_begin_def createPeerConnection_resume_def
        console_log_def update_pc_def sendSignal_frame Let_def accepting_def new_pc_def)

theorem retry_fixed_delay_witness:
  "onconnectionstatechange (pcs a_with_b 0) = RetryHandler ''b'' ''b''
   \<and> timers (connectionstatechange 0 Failed a_with_b) =
       [\<lparr>delay_ms = 2000, t_user = ''b'', t_name = ''b''\<rparr>]
   \<and> timers (connectionstatechange 0 Disconnected a_with_b) =
       [\<lparr>delay_ms = 2000, t_user = ''b'', t_name = ''b''\<rparr>]
   \<and> map_of (peerConnectionsRef a_with_b) ''c'' = None
   \<and> retry_callback accepting \<lparr>delay_ms = 2000, t_user = ''c'', t_name = ''c''\<rparr> a_with_b = a_with_b
   \<and> map_of (peerConnectionsRef a_with_b) ''b'' = Some 0 \<and> 0 < next_pc a_with_b
   \<and> isClosed (pcs (retry_callback accepting \<lparr>delay_ms = 2000, t_user = ''b'', t_name = ''b''\<rparr>
                       a_with_b) 0)
   \<and> map_of (peerConnectionsRef
        (retry_callback accepting \<lparr>delay_ms = 2000, t_user = ''b'', t_name = ''b''\<rparr> a_with_b))
        ''b'' = Some 1"
proof -
  have pre: "onconnectionstatechange (pcs a_with_b 0) = RetryHandler ''b'' ''b''"
    "map_of (peerConnectionsRef a_with_b) ''c'' = None"
    "map_of (peerConnectionsRef a_with_b) ''b'' = Some 0" "0 < next_pc a_with_b"
    "localStreamRef a_with_b \<noteq> None" "user a_with_b \<noteq> None"
    "construct_ok accepting (next_pc a_with_b)"
    by (simp_all add: a_with_b_pc new_pc_def a_with_b_connections a_with_b_next a_with_b_stream
          accepting_def)
  show ?thesis
    using pre a_with_b_timers a_with_b_next
      retry_fixed_delay [of a_with_b 0 "''b''" "''b''" Failed
         "\<lparr>delay_ms = 2000, t_user = ''c'', t_name = ''c''\<rparr>" accepting]
      retry_fixed_delay [of a_with_b 0 "''b''" "''b''" Disconnected
         "\<lparr>delay_ms = 2000, t_user = ''b'', t_name = ''b''\<rparr>" accepting]
    by simp
qed


text \<open>
  C3 as stated fails. A connection that \<open>handleOffer\<close> made goes from connected to
  failed and no retry is scheduled; and for a connection that \<open>createPeerConnection\<close>
  made, the delay after the first failure and the delay after the second consecutive
  failure are both 2000.
\<close>

theorem retry_backoff_counterexample:
  "timers (connectionstatechange 0 Failed (connectionstatechange 0 Connected a_answering)) = []
   \<and> map delay_ms (timers a_failed_once) = [2000]
   \<and> map delay_ms (timers a_failed_twice) = [2000]"
proof -
  have "timers a_failed_twice =
      timers (fire_timer accepting a_failed_once) @
        [\<lparr>delay_ms = 2000, t_user = ''b'', t_name = ''b''\<rparr>]"
    unfolding a_failed_twice_def
    by (rule connectionstatechange_retry [OF a_retried_facts(2)]) simp
  then have twice: "map delay_ms (timers a_failed_twice) = [2000]"
    by (simp add: a_retried_facts)
  have "timers (connectionstatechange 0 Failed (connectionstatechange 0 Connected a_answering)) = []"
    by (simp add: connectionstatechange_log_only connectionstatechange_frame a_answering_facts)
  then show ?thesis
    using twice by (simp add: a_failed_once_facts)
qed

section \<open>Following the participant list\<close>

lemma begin_frame:
  "localStreamRef (fst (createPeerConnection_begin pf p n s)) = localStreamRef s"
  "user (fst (createPeerConnection_begin pf p n s)) = user s"
  "isInitializedRef (fst (createPeerConnection_begin pf p n s)) = isInitializedRef s"
  "participants (fst (createPeerConnection_begin pf p n s)) = participants s"
  by (simp_all add: createPeerConnection_begin_def console_log_def create_failed_def toast_def
        console_error_def Let_def split: option.splits)

lemma begin_connections:
  assumes "localStreamRef s \<noteq> None" "user s \<noteq> None" "construct_ok pf (next_pc s)"
  shows "peerConnectionsRef (fst (createPeerConnection_begin pf p n s)) =
           AList.update p (next_pc s) (peerConnectionsRef s)"
    and "snd (createPeerConnection_begin pf p n s) = Some (next_pc s)"
  using assms
  by (auto simp: createPeerConnection_begin_def console_log_def Let_def split: option.splits)

lemma resume_frame:
  "peerConnectionsRef (createPeerConnection_resume pf p n h s) = peerConnectionsRef s"
  "next_pc (createPeerConnection_resume pf p n h s) = next_pc s"
  "localStreamRef (createPeerConnection_resume pf p n h s) = localStreamRef s"
  "user (createPeerConnection_resume pf p n h s) = user s"
  "isInitializedRef (createPeerConnection_resume pf p n h s) = isInitializedRef s"
  "participants (createPeerConnection_resume pf p n h s) = participants s"
  by (simp_all add: createPeerConnection_resume_def console_log_def create_failed_def toast_def
        console_error_def update_pc_def sendSignal_frame Let_def split: option.splits)

lemma resume_all_frame:
  "peerConnectionsRef (resume_all pf pending s) = peerConnectionsRef s
   \<and> next_pc (resume_all pf pending s) = next_pc s
   \<and> localStreamRef (resume_all pf pending s) = localStreamRef s
   \<and> user (resume_all pf pending s) = user s
   \<and> isInitializedRef (resume_all pf pending s) = isInitializedRef s
   \<and> participants (resume_all pf pending s) = participants s"
  by (induction pf pending s rule: resume_all.induct) (simp_all add: resume_frame)

lemma create_missing_frame:
  "localStreamRef (fst (create_missing pf u ps s)) = localStreamRef s
   \<and> user (fst (create_missing pf u ps s)) = user s
   \<and> isInitializedRef (fst (create_missing pf u ps s)) = isInitializedRef s
   \<and> participants (fst (create_missing pf u ps s)) = participants s"
proof (induction ps arbitrary: s)
  case Nil
  then show ?case by simp
next
  case (Cons p ps)
  obtain s1 r where b: "createPeerConnection_begin pf (user_id p) (username p) s = (s1, r)"
    by (cases "createPeerConnection_begin pf (user_id p) (username p) s")
  have s1: "localStreamRef s1 = localStreamRef s \<and> user s1 = user s
      \<and> isInitializedRef s1 = isInitializedRef s \<and> participants s1 = participants s"
    using begin_frame [of pf "user_id p" "username p" s] b by simp
  show ?case
    using Cons.IH [of s] Cons.IH [of s1] s1 b
    by (auto split: option.splits prod.splits)
qed

lemma create_missing_keys:
  assumes "localStreamRef s \<noteq> None" "user s \<noteq> None" "\<forall>n. construct_ok pf n"
  shows "fst ` set (peerConnectionsRef (fst (create_missing pf u ps s))) =
           fst ` set (peerConnectionsRef s) \<union> {i \<in> user_id ` set ps. i \<noteq> u}"
  using assms
proof (induction ps arbitrary: s)
  case Nil
  then show ?case by simp
next
  case (Cons p ps)
  show ?case
  proof (cases "user_id p \<noteq> u \<and> map_of (peerConnectionsRef s) (user_id p) = None")
    case True
    obtain s1 r where b: "createPeerConnection_begin pf (user_id p) (username p) s = (s1, r)"
      by (cases "createPeerConnection_begin pf (user_id p) (username p) s")
    have r: "r = Some (next_pc s)"
      and c1: "peerConnectionsRef s1 = AList.update (user_id p) (next_pc s) (peerConnectionsRef s)"
      using begin_connections [of s pf "user_id p" "username p"] Cons.prems b by simp_all
    have pre: "localStreamRef s1 \<noteq> None" "user s1 \<noteq> None"
      using begin_frame [of pf "user_id p" "username p" s] b Cons.prems by simp_all
    have "fst ` set (peerConnectionsRef (fst (create_missing pf u ps s1))) =
        fst ` set (peerConnectionsRef s1) \<union> {i \<in> user_id ` set ps. i \<noteq> u}"
      using Cons.IH [OF pre Cons.prems(3)] .
    moreover have "fst (create_missing pf u (p # ps) s) = fst (create_missing pf u ps s1)"
      using True b r by (simp split: prod.splits)
    ultimately show ?thesis
      using True c1 by (auto simp: dom_update)
  next
    case False
    then have "fst (create_missing pf u (p # ps) s) = fst (create_missing pf u ps s)"
      by auto
    moreover have "user_id p = u \<or> user_id p \<in> fst ` set (peerConnectionsRef s)"
      using False by (auto simp: map_of_eq_None_iff)
    ultimately show ?thesis
      using Cons.IH [OF Cons.prems] by auto
  qed
qed

lemma create_missing_distinct:
  "distinct (map fst (peerConnectionsRef s)) \<Longrightarrow>
   distinct (map fst (peerConnectionsRef (fst (create_missing pf u ps s))))"
proof (induction ps arbitrary: s)
  case Nil
  then show ?case by simp
next
  case (Cons p ps)
  obtain s1 r where b: "createPeerConnection_begin pf (user_id p) (username p) s = (s1, r)"
    by (cases "createPeerConnection_begin pf (user_id p) (username p) s")
  have "distinct (map fst (peerConnectionsRef s1))"
    using b Cons.prems
    by (auto simp: createPeerConnection_begin_def console_log_def create_failed_def toast_def
          console_error_def Let_def distinct_update split: option.splits if_splits)
  then show ?case
    using Cons.IH [of s] Cons.IH [of s1] Cons.prems b
    by (auto split: option.splits prod.splits)
qed

lemma create_missing_nothing:
  "\<forall>p \<in> set ps. user_id p = u \<or> map_of (peerConnectionsRef s) (user_id p) \<noteq> None \<Longrightarrow>
   create_missing pf u ps s = (s, [])"
  by (induction ps) auto

lemma close_left_frame:
  "localStreamRef (close_left u ids ks s) = localStreamRef s
   \<and> user (close_left u ids ks s) = user s
   \<and> isInitializedRef (close_left u ids ks s) = isInitializedRef s
   \<and> participants (close_left u ids ks s) = participants s
   \<and> next_pc (close_left u ids ks s) = next_pc s"
  by (induction ks arbitrary: s) (simp_all add: closePeerConnection_def split: option.splits)

lemma keys_delete: "fst ` set (AList.delete k al) = fst ` set al - {k}"
proof -
  have "set (map fst (AList.delete k al)) = set (removeAll k (map fst al))"
    by (simp only: delete_keys)
  then show ?thesis by simp
qed

lemma closePeerConnection_keys:
  "fst ` set (peerConnectionsRef (closePeerConnection k s)) = fst ` set (peerConnectionsRef s) - {k}"
  by (auto simp: closePeerConnection_def keys_delete map_of_eq_None_iff split: option.splits)

lemma closePeerConnection_distinct:
  "distinct (map fst (peerConnectionsRef s)) \<Longrightarrow>
   distinct (map fst (peerConnectionsRef (closePeerConnection k s)))"
  by (auto simp: closePeerConnection_def distinct_delete split: option.splits)

lemma close_left_keys:
  "fst ` set (peerConnectionsRef (close_left u ids ks s)) =
     fst ` set (peerConnectionsRef s) - {k \<in> set ks. k \<noteq> u \<and> k \<notin> set ids}"
  by (induction ks arbitrary: s) (auto simp: closePeerConnection_keys)

lemma close_left_distinct:
  "distinct (map fst (peerConnectionsRef s)) \<Longrightarrow>
   distinct (map fst (peerConnectionsRef (close_left u ids ks s)))"
  by (induction ks arbitrary: s) (simp_all add: closePeerConnection_distinct)

lemma close_left_nothing:
  "\<forall>k \<in> set ks. k = u \<or> k \<in> set ids \<Longrightarrow> close_left u ids ks s = s"
  by (induction ks) auto


lemma reconcile_unfold:
  assumes "isInitializedRef s" "localStreamRef s \<noteq> None" "user s = Some u"
  shows "reconcile pf s =
           resume_all pf (snd (create_missing pf u (participants s) s))
             (close_left u (map user_id (participants s))
                (map fst (peerConnectionsRef (fst (create_missing pf u (participants s) s))))
                (fst (create_missing pf u (participants s) s)))"
  using assms by (auto simp add: reconcile_def split: prod.splits)

lemma reconcile_frame:
  "localStreamRef (reconcile pf s) = localStreamRef s
   \<and> user (reconcile pf s) = user s
   \<and> isInitializedRef (reconcile pf s) = isInitializedRef s
   \<and> participants (reconcile pf s) = participants s"
proof (cases "isInitializedRef s \<and> localStreamRef s \<noteq> None \<and> user s \<noteq> None")
  case True
  then obtain u where u: "user s = Some u" by auto
  show ?thesis
    using True u
    by (simp add: reconcile_unfold [of s u] resume_all_frame close_left_frame create_missing_frame)
next
  case False
  then show ?thesis by (auto simp: reconcile_def)
qed

lemma reconcile_keys:
  assumes "isInitializedRef s" "localStreamRef s \<noteq> None" "user s = Some u"
    "\<forall>n. construct_ok pf n"
  shows "fst ` set (peerConnectionsRef (reconcile pf s)) - {u} = user_id ` set (participants s) - {u}"
    and "u \<notin> fst ` set (peerConnectionsRef s) \<Longrightarrow> u \<notin> fst ` set (peerConnectionsRef (reconcile pf s))"
proof -
  let ?s1 = "fst (create_missing pf u (participants s) s)"
  have k1: "fst ` set (peerConnectionsRef ?s1) =
      fst ` set (peerConnectionsRef s) \<union> {i \<in> user_id ` set (participants s). i \<noteq> u}"
    using assms by (intro create_missing_keys) auto
  have k2: "fst ` set (peerConnectionsRef (reconcile pf s)) =
      fst ` set (peerConnectionsRef ?s1)
        - {k \<in> fst ` set (peerConnectionsRef ?s1). k \<noteq> u \<and> k \<notin> user_id ` set (participants s)}"
    using assms by (simp add: reconcile_unfold [of s u] resume_all_frame close_left_keys)
  show "fst ` set (peerConnectionsRef (reconcile pf s)) - {u} = user_id ` set (participants s) - {u}"
    unfolding k2 k1 by auto
  show "u \<notin> fst ` set (peerConnectionsRef s) \<Longrightarrow> u \<notin> fst ` set (peerConnectionsRef (reconcile pf s))"
    unfolding k2 k1 by auto
qed

lemma reconcile_distinct:
  "distinct (map fst (peerConnectionsRef s)) \<Longrightarrow>
   distinct (map fst (peerConnectionsRef (reconcile pf s)))"
proof (cases "isInitializedRef s \<and> localStreamRef s \<noteq> None \<and> user s \<noteq> None")
  case True
  assume d: "distinct (map fst (peerConnectionsRef s))"
  from True obtain u where u: "user s = Some u" by auto
  show ?thesis
    using True u d
    by (simp add: reconcile_unfold [of s u] resume_all_frame close_left_distinct
          create_missing_distinct)
next
  case False
  assume "distinct (map fst (peerConnectionsRef s))"
  then show ?thesis using False by (auto simp: reconcile_def)
qed

lemma reconcile_settled:
  assumes "user s = Some u"
    "fst ` set (peerConnectionsRef s) - {u} = user_id ` set (participants s) - {u}"
  shows "reconcile pf s = s"
proof (cases "isInitializedRef s \<and> localStreamRef s \<noteq> None")
  case True
  have "\<forall>p \<in> set (participants s). user_id p = u \<or> map_of (peerConnectionsRef s) (user_id p) \<noteq> None"
    using assms(2) by (auto simp: map_of_eq_None_iff)
  then have c: "create_missing pf u (participants s) s = (s, [])"
    by (rule create_missing_nothing)
  have "\<forall>k \<in> set (map fst (peerConnectionsRef s)). k = u \<or> k \<in> set (map user_id (participants s))"
    using assms(2) by auto
  then have "close_left u (map user_id (participants s)) (map fst (peerConnectionsRef s)) s = s"
    by (rule close_left_nothing)
  then show ?thesis
    using True assms(1) c by (simp add: reconcile_unfold [of s u])
next
  case False
  then show ?thesis by (auto simp: reconcile_def)
qed


lemma setParticipants_frame:
  "localStreamRef (setParticipants pf ps s) = localStreamRef s
   \<and> user (setParticipants pf ps s) = user s
   \<and> isInitializedRef (setParticipants pf ps s) = isInitializedRef s
   \<and> participants (setParticipants pf ps s) = ps"
  using reconcile_frame [of pf "s\<lparr>participants := ps\<rparr>"] by (simp add: setParticipants_def)

lemma deltas_frame:
  "localStreamRef (fold (setParticipants pf) pss s) = localStreamRef s
   \<and> user (fold (setParticipants pf) pss s) = user s
   \<and> isInitializedRef (fold (setParticipants pf) pss s) = isInitializedRef s"
  by (induction pss arbitrary: s) (simp_all add: setParticipants_frame)

lemma deltas_distinct:
  "distinct (map fst (peerConnectionsRef s)) \<Longrightarrow>
   distinct (map fst (peerConnectionsRef (fold (setParticipants pf) pss s)))"
  by (induction pss arbitrary: s) (simp_all add: setParticipants_def reconcile_distinct)

lemma setParticipants_self_absent:
  assumes "isInitializedRef s" "localStreamRef s \<noteq> None" "user s = Some u"
    "\<forall>n. construct_ok pf n" "u \<notin> fst ` set (peerConnectionsRef s)"
  shows "u \<notin> fst ` set (peerConnectionsRef (setParticipants pf ps s))"
  using reconcile_keys(2) [of "s\<lparr>participants := ps\<rparr>" u pf] assms
  by (simp add: setParticipants_def)

lemma deltas_self_absent:
  assumes "isInitializedRef s" "localStreamRef s \<noteq> None" "user s = Some u"
    "\<forall>n. construct_ok pf n" "u \<notin> fst ` set (peerConnectionsRef s)"
  shows "u \<notin> fst ` set (peerConnectionsRef (fold (setParticipants pf) pss s))"
  using assms
proof (induction pss arbitrary: s)
  case Nil
  then show ?case by simp
next
  case (Cons ps pss)
  let ?s1 = "setParticipants pf ps s"
  have "isInitializedRef ?s1" "localStreamRef ?s1 \<noteq> None" "user ?s1 = Some u"
    using Cons.prems by (simp_all add: setParticipants_frame)
  moreover have "u \<notin> fst ` set (peerConnectionsRef ?s1)"
    using Cons.prems by (rule setParticipants_self_absent)
  ultimately have "u \<notin> fst ` set (peerConnectionsRef (fold (setParticipants pf) pss ?s1))"
    using Cons.IH Cons.prems(4) by blast
  then show ?case by simp
qed

lemma begin_made:
  assumes "localStreamRef s = Some ts" "user s \<noteq> None" "construct_ok pf (next_pc s)"
  shows "createPeerConnection_begin pf p n s =
           ((console_log [''Creating peer connection with:'', n, p] s)
              \<lparr>pcs := (pcs s)(next_pc s := new_pc ts (RetryHandler p n)),
               next_pc := Suc (next_pc s),
               peerConnectionsRef := AList.update p (next_pc s) (peerConnectionsRef s)\<rparr>,
            Some (next_pc s))"
  using assms by (simp add: createPeerConnection_begin_def console_log_def Let_def)

lemma begin_quiet:
  "insert_calls (fst (createPeerConnection_begin pf p n s)) = insert_calls s"
  "roomId (fst (createPeerConnection_begin pf p n s)) = roomId s"
  by (simp_all add: createPeerConnection_begin_def console_log_def create_failed_def toast_def
        console_error_def Let_def split: option.splits)

lemma begin_connections_cases:
  "peerConnectionsRef (fst (createPeerConnection_begin pf p n s)) = peerConnectionsRef s
   \<or> peerConnectionsRef (fst (createPeerConnection_begin pf p n s))
       = AList.update p (next_pc s) (peerConnectionsRef s)"
  by (simp add: createPeerConnection_begin_def console_log_def create_failed_def toast_def
        console_error_def Let_def split: option.splits)

lemma create_missing_keeps:
  "map_of (peerConnectionsRef s) i = Some h \<Longrightarrow>
   map_of (peerConnectionsRef (fst (create_missing pf u ps s))) i = Some h"
proof (induction ps arbitrary: s)
  case Nil
  then show ?case by simp
next
  case (Cons p ps)
  show ?case
  proof (cases "user_id p \<noteq> u \<and> map_of (peerConnectionsRef s) (user_id p) = None")
    case True
    obtain s1 r where b: "createPeerConnection_begin pf (user_id p) (username p) s = (s1, r)"
      by (cases "createPeerConnection_begin pf (user_id p) (username p) s")
    have ne: "user_id p \<noteq> i"
      using True Cons.prems by auto
    have "map_of (peerConnectionsRef s1) i = Some h"
      using begin_connections_cases [of pf "user_id p" "username p" s] b ne Cons.prems
      by (auto simp: update_conv')
    then have "map_of (peerConnectionsRef (fst (create_missing pf u ps s1))) i = Some h"
      by (rule Cons.IH)
    moreover have "fst (create_missing pf u (p # ps) s) = fst (create_missing pf u ps s1)"
      using True b by (simp split: prod.splits option.splits)
    ultimately show ?thesis by simp
  next
    case False
    then have "fst (create_missing pf u (p # ps) s) = fst (create_missing pf u ps s)"
      by auto
    then show ?thesis using Cons.IH [OF Cons.prems] by simp
  qed
qed

lemma close_left_keeps:
  "i = u \<or> i \<in> set ids \<Longrightarrow>
   map_of (peerConnectionsRef (close_left u ids ks s)) i = map_of (peerConnectionsRef s) i"
proof (induction ks arbitrary: s)
  case Nil
  then show ?case by simp
next
  case (Cons k ks)
  have "map_of (peerConnectionsRef (closePeerConnection k s)) i = map_of (peerConnectionsRef s) i"
    if "k \<noteq> i"
    using that by (simp add: closePeerConnection_def split: option.splits)
  then show ?case
    using Cons by auto
qed

lemma reconcile_keeps:
  assumes "user s = Some u" "map_of (peerConnectionsRef s) i = Some h"
    "i = u \<or> i \<in> user_id ` set (participants s)"
  shows "map_of (peerConnectionsRef (reconcile pf s)) i = Some h"
proof (cases "isInitializedRef s \<and> localStreamRef s \<noteq> None")
  case True
  have "i = u \<or> i \<in> set (map user_id (participants s))"
    using assms(3) by simp
  then show ?thesis
    using True assms(1,2)
    by (simp add: reconcile_unfold [of s u] resume_all_frame close_left_keeps create_missing_keeps)
next
  case False
  then show ?thesis using assms(2) by (auto simp: reconcile_def)
qed

lemma create_missing_pending:
  assumes "localStreamRef s \<noteq> None" "user s \<noteq> None" "\<forall>n. construct_ok pf n"
  shows "fst ` set (snd (create_missing pf u ps s)) =
           {i \<in> user_id ` set ps. i \<noteq> u \<and> map_of (peerConnectionsRef s) i = None}
         \<and> distinct (map fst (snd (create_missing pf u ps s)))
         \<and> next_pc (fst (create_missing pf u ps s))
             = next_pc s + length (snd (create_missing pf u ps s))
         \<and> insert_calls (fst (create_missing pf u ps s)) = insert_calls s
         \<and> roomId (fst (create_missing pf u ps s)) = roomId s"
  using assms
proof (induction ps arbitrary: s)
  case Nil
  then show ?case by simp
next
  case (Cons p ps)
  show ?case
  proof (cases "user_id p \<noteq> u \<and> map_of (peerConnectionsRef s) (user_id p) = None")
    case True
    obtain ts where ts: "localStreamRef s = Some ts"
      using Cons.prems(1) by auto
    obtain s1 where b: "createPeerConnection_begin pf (user_id p) (username p) s
        = (s1, Some (next_pc s))"
      and f1: "insert_calls s1 = insert_calls s" "roomId s1 = roomId s"
        "next_pc s1 = Suc (next_pc s)"
        "peerConnectionsRef s1 = AList.update (user_id p) (next_pc s) (peerConnectionsRef s)"
      and pre: "localStreamRef s1 \<noteq> None" "user s1 \<noteq> None"
      using begin_made [OF ts Cons.prems(2), of pf "user_id p" "username p"] Cons.prems
      by (simp add: console_log_def)
    have c: "create_missing pf u (p # ps) s =
        (fst (create_missing pf u ps s1),
         (user_id p, username p, next_pc s) # snd (create_missing pf u ps s1))"
      using True b by (simp split: prod.splits)
    have ih: "fst ` set (snd (create_missing pf u ps s1)) =
           {i \<in> user_id ` set ps. i \<noteq> u \<and> map_of (peerConnectionsRef s1) i = None}"
      "distinct (map fst (snd (create_missing pf u ps s1)))"
      "next_pc (fst (create_missing pf u ps s1))
             = next_pc s1 + length (snd (create_missing pf u ps s1))"
      "insert_calls (fst (create_missing pf u ps s1)) = insert_calls s1"
      "roomId (fst (create_missing pf u ps s1)) = roomId s1"
      using Cons.IH [OF pre Cons.prems(3)] by simp_all
    have rest: "fst ` set (snd (create_missing pf u ps s1)) =
           {i \<in> user_id ` set ps. i \<noteq> u \<and> i \<noteq> user_id p
              \<and> map_of (peerConnectionsRef s) i = None}"
      unfolding ih(1) f1(4) by (auto simp: update_conv')
    have "fst ` set (snd (create_missing pf u (p # ps) s)) =
           {i \<in> user_id ` set (p # ps). i \<noteq> u \<and> map_of (peerConnectionsRef s) i = None}"
      unfolding c using True rest by auto
    moreover have "distinct (map fst (snd (create_missing pf u (p # ps) s)))"
      unfolding c using ih(2) rest by auto
    moreover have "next_pc (fst (create_missing pf u (p # ps) s))
             = next_pc s + length (snd (create_missing pf u (p # ps) s))"
      unfolding c using ih(3) f1(3) by simp
    moreover have "insert_calls (fst (create_missing pf u (p # ps) s)) = insert_calls s"
      "roomId (fst (create_missing pf u (p # ps) s)) = roomId s"
      unfolding c using ih(4,5) f1(1,2) by simp_all
    ultimately show ?thesis by blast
  next
    case False
    then have c: "create_missing pf u (p # ps) s = create_missing pf u ps s"
      by auto
    have "user_id p = u \<or> map_of (peerConnectionsRef s) (user_id p) \<noteq> None"
      using False by auto
    then show ?thesis
      using Cons.IH [OF Cons.prems]
      unfolding c by auto
  qed
qed

lemma close_left_quiet:
  "insert_calls (close_left u ids ks s) = insert_calls s
   \<and> roomId (close_left u ids ks s) = roomId s"
  by (induction ks arbitrary: s) (simp_all add: closePeerConnection_def split: option.splits)

lemma resume_offers:
  assumes "roomId s = Some r" "r \<noteq> []" "user s = Some u"
    "\<forall>pc. createOffer pf pc \<noteq> None" "\<forall>pc d. setLocalDescription_ok pf pc d"
  shows "\<exists>d. insert_calls (createPeerConnection_resume pf p n h s) =
           insert_calls s @ [\<lparr>room_id = r, from_user_id = u, to_user_id = p,
                              signal_type = ''offer'', signal_data = d\<rparr>]"
    and "roomId (createPeerConnection_resume pf p n h s) = roomId s"
proof -
  have "createOffer pf (pcs s h) \<noteq> None"
    using assms(4) by blast
  then obtain d where d: "createOffer pf (pcs s h) = Some d"
    by auto
  show "\<exists>d. insert_calls (createPeerConnection_resume pf p n h s) =
           insert_calls s @ [\<lparr>room_id = r, from_user_id = u, to_user_id = p,
                              signal_type = ''offer'', signal_data = d\<rparr>]"
    using assms d
    by (auto simp: createPeerConnection_resume_def sendSignal_def console_log_def update_pc_def
          console_error_def Let_def split: insert_result.splits)
  show "roomId (createPeerConnection_resume pf p n h s) = roomId s"
    by (simp add: createPeerConnection_resume_def console_log_def create_failed_def toast_def
        console_error_def update_pc_def sendSignal_frame Let_def split: option.splits)
qed

lemma resume_all_offers:
  assumes "roomId s = Some r" "r \<noteq> []" "user s = Some u"
    "\<forall>pc. createOffer pf pc \<noteq> None" "\<forall>pc d. setLocalDescription_ok pf pc d"
  shows "\<exists>new. insert_calls (resume_all pf pending s) = insert_calls s @ new
           \<and> map to_user_id new = map fst pending
           \<and> (\<forall>e \<in> set new. signal_type e = ''offer'' \<and> from_user_id e = u \<and> room_id e = r)"
  using assms
proof (induction pending arbitrary: s)
  case Nil
  then show ?case by simp
next
  case (Cons x pending)
  obtain i n h where x: "x = (i, n, h)" by (cases x)
  let ?s1 = "createPeerConnection_resume pf i n h s"
  obtain d where d: "insert_calls ?s1 =
      insert_calls s @ [\<lparr>room_id = r, from_user_id = u, to_user_id = i,
                         signal_type = ''offer'', signal_data = d\<rparr>]"
    using resume_offers(1) [OF Cons.prems] by blast
  have pre: "roomId ?s1 = Some r" "user ?s1 = Some u"
    using resume_offers(2) [OF Cons.prems] Cons.prems by (simp_all add: resume_frame)
  obtain new where new: "insert_calls (resume_all pf pending ?s1) = insert_calls ?s1 @ new"
    "map to_user_id new = map fst pending"
    "\<forall>e \<in> set new. signal_type e = ''offer'' \<and> from_user_id e = u \<and> room_id e = r"
    using Cons.IH [OF pre(1) Cons.prems(2) pre(2) Cons.prems(4,5)] by blast
  let ?e = "\<lparr>room_id = r, from_user_id = u, to_user_id = i,
                         signal_type = ''offer'', signal_data = d\<rparr>"
  have "insert_calls (resume_all pf (x # pending) s) = insert_calls s @ (?e # new)"
    using new(1) d x by simp
  moreover have "map to_user_id (?e # new) = map fst (x # pending)"
    using new(2) x by simp
  moreover have "\<forall>e \<in> set (?e # new). signal_type e = ''offer'' \<and> from_user_id e = u \<and> room_id e = r"
    using new(3) by simp
  ultimately show ?case by blast
qed

lemma reconcile_offers:
  assumes "isInitializedRef s" "localStreamRef s \<noteq> None" "user s = Some u"
    "roomId s = Some r" "r \<noteq> []" "\<forall>n. construct_ok pf n"
    "\<forall>pc. createOffer pf pc \<noteq> None" "\<forall>pc d. setLocalDescription_ok pf pc d"
  shows "\<exists>new. insert_calls (reconcile pf s) = insert_calls s @ new
           \<and> to_user_id ` set new =
               {i \<in> user_id ` set (participants s). i \<noteq> u \<and> map_of (peerConnectionsRef s) i = None}
           \<and> distinct (map to_user_id new)
           \<and> (\<forall>e \<in> set new. signal_type e = ''offer'' \<and> from_user_id e = u \<and> room_id e = r)"
proof -
  let ?c = "create_missing pf u (participants s) s"
  let ?s2 = "close_left u (map user_id (participants s)) (map fst (peerConnectionsRef (fst ?c))) (fst ?c)"
  have p: "fst ` set (snd ?c) =
           {i \<in> user_id ` set (participants s). i \<noteq> u \<and> map_of (peerConnectionsRef s) i = None}"
    "distinct (map fst (snd ?c))" "insert_calls (fst ?c) = insert_calls s"
    "roomId (fst ?c) = roomId s"
    using create_missing_pending [of s pf u "participants s"] assms by auto
  have pre: "roomId ?s2 = Some r" "user ?s2 = Some u" "insert_calls ?s2 = insert_calls s"
    using p assms by (simp_all add: close_left_quiet close_left_frame create_missing_frame)
  obtain new where new: "insert_calls (resume_all pf (snd ?c) ?s2) = insert_calls ?s2 @ new"
    "map to_user_id new = map fst (snd ?c)"
    "\<forall>e \<in> set new. signal_type e = ''offer'' \<and> from_user_id e = u \<and> room_id e = r"
    using resume_all_offers [OF pre(1) assms(5) pre(2) assms(7,8), of "snd ?c"] by blast
  have "to_user_id ` set new = fst ` set (snd ?c)"
    using new(2) by (metis set_map)
  then show ?thesis
    using new p pre(3) assms(1-3) by (auto simp: reconcile_unfold [of s u])
qed

lemma reconcile_allocates:
  assumes "isInitializedRef s" "localStreamRef s \<noteq> None" "user s = Some u"
    "\<forall>n. construct_ok pf n"
  shows "next_pc (reconcile pf s) = next_pc s
           + card {i \<in> user_id ` set (participants s). i \<noteq> u \<and> map_of (peerConnectionsRef s) i = None}"
proof -
  let ?c = "create_missing pf u (participants s) s"
  have p: "fst ` set (snd ?c) =
           {i \<in> user_id ` set (participants s). i \<noteq> u \<and> map_of (peerConnectionsRef s) i = None}"
    "distinct (map fst (snd ?c))" "next_pc (fst ?c) = next_pc s + length (snd ?c)"
    using create_missing_pending [of s pf u "participants s"] assms by auto
  have "card (fst ` set (snd ?c)) = length (snd ?c)"
    using p(2) by (metis distinct_card length_map set_map)
  then show ?thesis
    using p assms(1-3)
    by (simp add: reconcile_unfold [of s u] resume_all_frame close_left_frame)
qed

lemma update_fresh: "k \<notin> fst ` set al \<Longrightarrow> AList.update k v al = al @ [(k, v)]"
  by (induction al) auto

lemma same_handle_same_id:
  assumes "distinct (map snd al)" "map_of al i = Some h" "map_of al k = Some h"
  shows "i = k"
proof -
  have "(i, h) \<in> set al" "(k, h) \<in> set al"
    using assms(2,3) by (auto dest: map_of_SomeD)
  moreover have "inj_on snd (set al)"
    using assms(1) by (simp add: distinct_map)
  ultimately show ?thesis
    using inj_onD [of snd "set al" "(i, h)" "(k, h)"] by simp
qed

lemma begin_well_formed:
  assumes "well_formed s" "map_of (peerConnectionsRef s) p = None"
  shows "well_formed (fst (createPeerConnection_begin pf p n s))"
    and "next_pc s \<le> next_pc (fst (createPeerConnection_begin pf p n s))"
    and "h < next_pc s \<Longrightarrow> pcs (fst (createPeerConnection_begin pf p n s)) h = pcs s h"
    and "snd (createPeerConnection_begin pf p n s) = Some h' \<Longrightarrow> h' = next_pc s
           \<and> next_pc (fst (createPeerConnection_begin pf p n s)) = Suc (next_pc s)"
proof -
  have fresh: "p \<notin> fst ` set (peerConnectionsRef s)"
    using assms(2) by (simp add: map_of_eq_None_iff)
  show "well_formed (fst (createPeerConnection_begin pf p n s))"
    using assms(1) fresh
    by (auto simp: createPeerConnection_begin_def console_log_def create_failed_def toast_def
          console_error_def Let_def well_formed_def update_fresh less_Suc_eq
          split: option.splits)
  show "next_pc s \<le> next_pc (fst (createPeerConnection_begin pf p n s))"
    by (simp add: createPeerConnection_begin_def console_log_def create_failed_def toast_def
          console_error_def Let_def split: option.splits)
  show "h < next_pc s \<Longrightarrow> pcs (fst (createPeerConnection_begin pf p n s)) h = pcs s h"
    by (simp add: createPeerConnection_begin_def console_log_def create_failed_def toast_def
          console_error_def Let_def split: option.splits)
  show "snd (createPeerConnection_begin pf p n s) = Some h' \<Longrightarrow> h' = next_pc s
           \<and> next_pc (fst (createPeerConnection_begin pf p n s)) = Suc (next_pc s)"
    by (auto simp add: createPeerConnection_begin_def console_log_def create_failed_def toast_def
          console_error_def Let_def split: option.splits if_splits)
qed

lemma create_missing_well_formed:
  assumes "well_formed s"
  shows "well_formed (fst (create_missing pf u ps s))
         \<and> next_pc s \<le> next_pc (fst (create_missing pf u ps s))
         \<and> (\<forall>h < next_pc s. pcs (fst (create_missing pf u ps s)) h = pcs s h)
         \<and> (\<forall>(i, n, h) \<in> set (snd (create_missing pf u ps s)). next_pc s \<le> h)"
  using assms
proof (induction ps arbitrary: s)
  case Nil
  then show ?case by simp
next
  case (Cons p ps)
  show ?case
  proof (cases "user_id p \<noteq> u \<and> map_of (peerConnectionsRef s) (user_id p) = None")
    case True
    obtain s1 r where b: "createPeerConnection_begin pf (user_id p) (username p) s = (s1, r)"
      by (cases "createPeerConnection_begin pf (user_id p) (username p) s")
    have none: "map_of (peerConnectionsRef s) (user_id p) = None"
      using True by simp
    have w1: "well_formed s1" and le: "next_pc s \<le> next_pc s1"
      and same: "\<forall>h < next_pc s. pcs s1 h = pcs s h"
      and made: "\<And>h'. r = Some h' \<Longrightarrow> h' = next_pc s"
      using begin_well_formed [OF Cons.prems none, where pf = pf and n = "username p"] b by auto
    have ih: "well_formed (fst (create_missing pf u ps s1))"
      "next_pc s1 \<le> next_pc (fst (create_missing pf u ps s1))"
      "\<forall>h < next_pc s1. pcs (fst (create_missing pf u ps s1)) h = pcs s1 h"
      "\<forall>(i, n, h) \<in> set (snd (create_missing pf u ps s1)). next_pc s1 \<le> h"
      using Cons.IH [OF w1] by simp_all
    show ?thesis
    proof (cases r)
      case None
      then have c: "create_missing pf u (p # ps) s = create_missing pf u ps s1"
        using True b by simp
      show ?thesis
        unfolding c using ih le same by fastforce
    next
      case (Some h')
      then have c: "create_missing pf u (p # ps) s =
          (fst (create_missing pf u ps s1),
           (user_id p, username p, h') # snd (create_missing pf u ps s1))"
        using True b by (simp split: prod.splits)
      have h': "h' = next_pc s"
        using made Some by simp
      show ?thesis
        unfolding c using ih le same h' by fastforce
    qed
  next
    case False
    then have c: "create_missing pf u (p # ps) s = create_missing pf u ps s"
      by auto
    show ?thesis
      unfolding c using Cons.IH [OF Cons.prems] .
  qed
qed

lemma closePeerConnection_well_formed:
  "well_formed s \<Longrightarrow> well_formed (closePeerConnection k s)"
  by (auto simp: closePeerConnection_def well_formed_def AList.delete_eq distinct_map_filter
        split: option.splits)

lemma closePeerConnection_other:
  assumes "well_formed s" "map_of (peerConnectionsRef s) i = Some h" "k \<noteq> i"
  shows "pcs (closePeerConnection k s) h = pcs s h"
proof (cases "map_of (peerConnectionsRef s) k")
  case None
  then show ?thesis by (simp add: closePeerConnection_def)
next
  case (Some h')
  have "h' \<noteq> h"
    using same_handle_same_id [of "peerConnectionsRef s" i h k] assms Some
    by (auto simp: well_formed_def)
  then show ?thesis
    using Some by (simp add: closePeerConnection_def)
qed

lemma close_left_well_formed:
  "well_formed s \<Longrightarrow> well_formed (close_left u ids ks s)"
  by (induction ks arbitrary: s) (simp_all add: closePeerConnection_well_formed)

lemma close_left_other:
  assumes "well_formed s" "map_of (peerConnectionsRef s) i = Some h" "i = u \<or> i \<in> set ids"
  shows "pcs (close_left u ids ks s) h = pcs s h"
  using assms
proof (induction ks arbitrary: s)
  case Nil
  then show ?case by simp
next
  case (Cons k ks)
  show ?case
  proof (cases "k \<noteq> u \<and> k \<notin> set ids")
    case True
    then have ne: "k \<noteq> i"
      using Cons.prems(3) by auto
    let ?s1 = "closePeerConnection k s"
    have "well_formed ?s1"
      using Cons.prems(1) by (rule closePeerConnection_well_formed)
    moreover have "map_of (peerConnectionsRef ?s1) i = Some h"
      using Cons.prems(2) ne by (simp add: closePeerConnection_def split: option.splits)
    ultimately have "pcs (close_left u ids ks ?s1) h = pcs ?s1 h"
      using Cons.IH Cons.prems(3) by blast
    then show ?thesis
      using True closePeerConnection_other [OF Cons.prems(1,2) ne] by simp
  next
    case False
    then show ?thesis
      using Cons.IH [OF Cons.prems] by auto
  qed
qed

lemma resume_other:
  "h \<noteq> h' \<Longrightarrow> pcs (createPeerConnection_resume pf p n h' s) h = pcs s h"
  by (simp add: createPeerConnection_resume_def console_log_def create_failed_def toast_def
        console_error_def update_pc_def sendSignal_frame Let_def split: option.splits)

lemma resume_all_other:
  "\<forall>(i, n, h') \<in> set pending. h \<noteq> h' \<Longrightarrow> pcs (resume_all pf pending s) h = pcs s h"
  by (induction pf pending s rule: resume_all.induct) (simp_all add: resume_other)

lemma resume_stays_closed:
  "isClosed (pcs s h) \<Longrightarrow> isClosed (pcs (createPeerConnection_resume pf p n h' s) h)"
  by (auto simp add: createPeerConnection_resume_def console_log_def create_failed_def toast_def
        console_error_def update_pc_def sendSignal_frame Let_def split: option.splits)

lemma resume_all_stays_closed:
  "isClosed (pcs s h) \<Longrightarrow> isClosed (pcs (resume_all pf pending s) h)"
  by (induction pf pending s rule: resume_all.induct) (simp_all add: resume_stays_closed)

lemma closePeerConnection_stays_closed:
  "isClosed (pcs s h) \<Longrightarrow> isClosed (pcs (closePeerConnection k s) h)"
  by (simp add: closePeerConnection_def rtc_close_def split: option.splits)

lemma close_left_stays_closed:
  "isClosed (pcs s h) \<Longrightarrow> isClosed (pcs (close_left u ids ks s) h)"
  by (induction ks arbitrary: s) (simp_all add: closePeerConnection_stays_closed)

lemma close_left_closes:
  assumes "map_of (peerConnectionsRef s) i = Some h" "i \<in> set ks" "i \<noteq> u" "i \<notin> set ids"
  shows "isClosed (pcs (close_left u ids ks s) h)"
  using assms
proof (induction ks arbitrary: s)
  case Nil
  then show ?case by simp
next
  case (Cons k ks)
  show ?case
  proof (cases "k = i")
    case True
    have "isClosed (pcs (closePeerConnection i s) h)"
      using Cons.prems(1) by (simp add: closePeerConnection_def rtc_close_def)
    then show ?thesis
      using True Cons.prems(3,4) by (simp add: close_left_stays_closed)
  next
    case False
    then have in_ks: "i \<in> set ks"
      using Cons.prems(2) by simp
    have keep: "map_of (peerConnectionsRef (closePeerConnection k s)) i = Some h"
      using Cons.prems(1) False by (simp add: closePeerConnection_def split: option.splits)
    show ?thesis
      using Cons.IH [OF keep in_ks Cons.prems(3,4)] Cons.IH [OF Cons.prems(1) in_ks Cons.prems(3,4)]
      by simp
  qed
qed

lemma well_formed_cong:
  "peerConnectionsRef a = peerConnectionsRef b \<Longrightarrow> next_pc a = next_pc b \<Longrightarrow>
   well_formed a = well_formed b"
  by (simp add: well_formed_def)

lemma reconcile_well_formed: "well_formed s \<Longrightarrow> well_formed (reconcile pf s)"
proof (cases "isInitializedRef s \<and> localStreamRef s \<noteq> None \<and> user s \<noteq> None")
  case True
  assume w: "well_formed s"
  from True obtain u where u: "user s = Some u" by auto
  let ?s1 = "fst (create_missing pf u (participants s) s)"
  let ?s2 = "close_left u (map user_id (participants s)) (map fst (peerConnectionsRef ?s1)) ?s1"
  have "well_formed ?s2"
    using create_missing_well_formed [OF w, of pf u "participants s"]
    by (simp add: close_left_well_formed)
  moreover have "well_formed (resume_all pf (snd (create_missing pf u (participants s) s)) ?s2)
      = well_formed ?s2"
    by (rule well_formed_cong) (simp_all add: resume_all_frame)
  ultimately show ?thesis
    using True u by (simp add: reconcile_unfold [of s u])
next
  case False
  assume "well_formed s"
  then show ?thesis using False by (auto simp: reconcile_def)
qed

lemma setParticipants_well_formed: "well_formed s \<Longrightarrow> well_formed (setParticipants pf ps s)"
proof -
  assume "well_formed s"
  then have "well_formed (s\<lparr>participants := ps\<rparr>)"
    by (simp add: well_formed_def)
  then show ?thesis
    unfolding setParticipants_def by (rule reconcile_well_formed)
qed

lemma deltas_well_formed:
  "well_formed s \<Longrightarrow> well_formed (fold (setParticipants pf) pss s)"
  by (induction pss arbitrary: s) (simp_all add: setParticipants_well_formed)

lemma reconcile_untouched:
  assumes "well_formed s" "user s = Some u" "map_of (peerConnectionsRef s) i = Some h"
    "i = u \<or> i \<in> user_id ` set (participants s)"
  shows "pcs (reconcile pf s) h = pcs s h"
proof (cases "isInitializedRef s \<and> localStreamRef s \<noteq> None")
  case True
  let ?c = "create_missing pf u (participants s) s"
  let ?s2 = "close_left u (map user_id (participants s)) (map fst (peerConnectionsRef (fst ?c))) (fst ?c)"
  have lt: "h < next_pc s"
    using assms(1,3) by (auto simp: well_formed_def dest: map_of_SomeD)
  have c: "well_formed (fst ?c)" "\<forall>h < next_pc s. pcs (fst ?c) h = pcs s h"
    "\<forall>(i, n, h') \<in> set (snd ?c). next_pc s \<le> h'"
    using create_missing_well_formed [OF assms(1), of pf u "participants s"] by simp_all
  have k: "map_of (peerConnectionsRef (fst ?c)) i = Some h"
    using assms(3) by (rule create_missing_keeps)
  have ids: "i = u \<or> i \<in> set (map user_id (participants s))"
    using assms(4) by simp
  have "pcs ?s2 h = pcs (fst ?c) h"
    using c(1) k ids by (rule close_left_other)
  moreover have "\<forall>(i, n, h') \<in> set (snd ?c). h \<noteq> h'"
    using c(3) lt by fastforce
  then have "pcs (resume_all pf (snd ?c) ?s2) h = pcs ?s2 h"
    by (rule resume_all_other)
  ultimately show ?thesis
    using True assms(2) c(2) lt by (simp add: reconcile_unfold [of s u])
next
  case False
  then show ?thesis by (auto simp: reconcile_def)
qed

lemma reconcile_closes_absent:
  assumes "isInitializedRef s" "localStreamRef s \<noteq> None" "user s = Some u"
    "map_of (peerConnectionsRef s) i = Some h" "i \<noteq> u" "i \<notin> user_id ` set (participants s)"
  shows "isClosed (pcs (reconcile pf s) h)"
proof -
  let ?c = "create_missing pf u (participants s) s"
  let ?s2 = "close_left u (map user_id (participants s)) (map fst (peerConnectionsRef (fst ?c))) (fst ?c)"
  have k: "map_of (peerConnectionsRef (fst ?c)) i = Some h"
    using assms(4) by (rule create_missing_keeps)
  then have "i \<in> set (map fst (peerConnectionsRef (fst ?c)))"
    by (auto dest: map_of_SomeD simp: rev_image_eqI)
  moreover have "i \<notin> set (map user_id (participants s))"
    using assms(6) by simp
  ultimately have "isClosed (pcs ?s2 h)"
    using k assms(5) by (intro close_left_closes)
  then have "isClosed (pcs (resume_all pf (snd ?c) ?s2) h)"
    by (rule resume_all_stays_closed)
  then show ?thesis
    using assms(1-3) by (simp add: reconcile_unfold [of s u])
qed

lemma a_with_c_b_facts:
  "peerConnectionsRef a_with_c_b = [(''c'', 0), (''b'', 1)]" "next_pc a_with_c_b = 2"
  by (simp_all add: a_with_c_b_def setParticipants_def reconcile_def joined_def member_def
        createPeerConnection_begin_def createPeerConnection_resume_def console_log_def
        accepting_def update_pc_def sendSignal_frame Let_def closePeerConnection_def)

text \<open>
  C4 as the code has it. In a session that is initialised and has local media and a user,
  on a platform that constructs every connection, take any sequence of participant lists
  (lists with duplicated entries, repeated lists and lists in any order included). After
  each step the ids in the connection map, the local user's apart, are the ids of the
  participants of the latest list, the local user's apart; every id has one entry; the
  local user has no entry if it had none at the start; and running the step again on the
  same list changes nothing at all. A step never makes a second connection for an id that
  is in the map: an entry of a listed participant keeps its connection object, the number
  of connections constructed by the step is the number of listed participants, the local
  user apart, that had no entry, and in a well-formed session the kept connection is left
  exactly as it was. The connection of an id that is no longer listed is closed.
\<close>

theorem reconcile_one_connection_per_member:
  assumes "isInitializedRef s" "localStreamRef s \<noteq> None" "user s = Some u"
    and "\<forall>n. construct_ok pf n"
    and "distinct (map fst (peerConnectionsRef s))"
  shows "fst ` set (peerConnectionsRef (setParticipants pf ps (fold (setParticipants pf) pss s)))
             - {u} = user_id ` set ps - {u}
         \<and> distinct (map fst
             (peerConnectionsRef (setParticipants pf ps (fold (setParticipants pf) pss s))))
         \<and> (u \<notin> fst ` set (peerConnectionsRef s) \<longrightarrow>
              u \<notin> fst ` set
                (peerConnectionsRef (setParticipants pf ps (fold (setParticipants pf) pss s))))
         \<and> setParticipants pf ps (setParticipants pf ps (fold (setParticipants pf) pss s))
             = setParticipants pf ps (fold (setParticipants pf) pss s)
         \<and> (\<forall>i h. map_of (peerConnectionsRef (fold (setParticipants pf) pss s)) i = Some h
                \<and> (i = u \<or> i \<in> user_id ` set ps) \<longrightarrow>
              map_of (peerConnectionsRef
                (setParticipants pf ps (fold (setParticipants pf) pss s))) i = Some h)
         \<and> next_pc (setParticipants pf ps (fold (setParticipants pf) pss s)) =
             next_pc (fold (setParticipants pf) pss s)
               + card {i \<in> user_id ` set ps. i \<noteq> u
                        \<and> map_of (peerConnectionsRef (fold (setParticipants pf) pss s)) i = None}
         \<and> (\<forall>i h. map_of (peerConnectionsRef (fold (setParticipants pf) pss s)) i = Some h
                \<and> i \<noteq> u \<and> i \<notin> user_id ` set ps \<longrightarrow>
              isClosed (pcs (setParticipants pf ps (fold (setParticipants pf) pss s)) h))
         \<and> (well_formed s \<longrightarrow>
              (\<forall>i h. map_of (peerConnectionsRef (fold (setParticipants pf) pss s)) i = Some h
                  \<and> (i = u \<or> i \<in> user_id ` set ps) \<longrightarrow>
                pcs (setParticipants pf ps (fold (setParticipants pf) pss s)) h
                  = pcs (fold (setParticipants pf) pss s) h))"
  (is "?keys \<and> ?one \<and> ?self \<and> ?again \<and> ?kept \<and> ?count \<and> ?closed \<and> ?untouched")
proof -
  let ?s0 = "fold (setParticipants pf) pss s"
  let ?sp = "?s0\<lparr>participants := ps\<rparr>"
  let ?s1 = "setParticipants pf ps ?s0"
  have g0: "isInitializedRef ?s0" "localStreamRef ?s0 \<noteq> None" "user ?s0 = Some u"
    using assms(1-3) by (simp_all add: deltas_frame)
  have gp: "isInitializedRef ?sp" "localStreamRef ?sp \<noteq> None" "user ?sp = Some u"
    "participants ?sp = ps" "peerConnectionsRef ?sp = peerConnectionsRef ?s0"
    "next_pc ?sp = next_pc ?s0" "pcs ?sp = pcs ?s0"
    using g0 by simp_all
  have s1: "?s1 = reconcile pf ?sp"
    by (simp add: setParticipants_def)
  have keys: ?keys
    using reconcile_keys(1) [of ?sp u pf] gp assms(4) by (simp add: s1)
  have dist: ?one
    using assms(5) by (simp add: setParticipants_def reconcile_distinct deltas_distinct)
  have self: ?self
    using deltas_self_absent [of s u pf pss] setParticipants_self_absent [of ?s0 u pf ps]
      assms(1-4) g0 by blast
  have g1: "user ?s1 = Some u" "participants ?s1 = ps"
    using g0 by (simp_all add: setParticipants_frame)
  have "?s1\<lparr>participants := ps\<rparr> = ?s1"
    using g1 by simp
  moreover have "reconcile pf ?s1 = ?s1"
    using g1 keys by (intro reconcile_settled [of ?s1 u]) simp_all
  ultimately have again: ?again
    by (simp add: setParticipants_def)
  have kept: ?kept
    using reconcile_keeps [of ?sp u _ _ pf] gp unfolding s1 by simp
  have count: ?count
    using reconcile_allocates [of ?sp u pf] gp assms(4) unfolding s1 by simp
  have closed: ?closed
    using reconcile_closes_absent [of ?sp u _ _ pf] gp unfolding s1 by auto
  have untouched: ?untouched
  proof
    assume "well_formed s"
    then have "well_formed ?s0"
      by (rule deltas_well_formed)
    then have "well_formed ?sp"
      by (simp add: well_formed_def)
    then show "\<forall>i h. map_of (peerConnectionsRef ?s0) i = Some h
                  \<and> (i = u \<or> i \<in> user_id ` set ps) \<longrightarrow> pcs ?s1 h = pcs ?s0 h"
      using reconcile_untouched [of ?sp u _ _ pf] gp unfolding s1 by auto
  qed
  show ?thesis
    using keys dist self again kept count closed untouched by (intro conjI)
qed

theorem reconcile_one_connection_per_member_witness:
  "isInitializedRef (joined ''a'') \<and> localStreamRef (joined ''a'') \<noteq> None
   \<and> user (joined ''a'') = Some ''a'' \<and> (\<forall>n. construct_ok accepting n)
   \<and> distinct (map fst (peerConnectionsRef (joined ''a'')))
   \<and> well_formed (joined ''a'')
   \<and> peerConnectionsRef a_with_c_b = [(''c'', 0), (''b'', 1)]
   \<and> next_pc a_with_c_b = 2
   \<and> fst ` set (peerConnectionsRef
        (setParticipants accepting [member ''a'', member ''b'', member ''b''] a_with_c_b))
        - {''a''} = {''b''}
   \<and> ''a'' \<notin> fst ` set (peerConnectionsRef
        (setParticipants accepting [member ''a'', member ''b'', member ''b''] a_with_c_b))
   \<and> map_of (peerConnectionsRef
        (setParticipants accepting [member ''a'', member ''b'', member ''b''] a_with_c_b)) ''b''
        = Some 1
   \<and> next_pc (setParticipants accepting [member ''a'', member ''b'', member ''b''] a_with_c_b) = 2
   \<and> isClosed (pcs (setParticipants accepting [member ''a'', member ''b'', member ''b'']
                      a_with_c_b) 0)
   \<and> pcs (setParticipants accepting [member ''a'', member ''b'', member ''b''] a_with_c_b) 1
       = pcs a_with_c_b 1
   \<and> next_pc (setParticipants accepting [member ''a'', member ''b'', member ''d''] a_with_c_b) = 3"
proof -
  let ?ps = "[member ''a'', member ''b'', member ''b'']"
  let ?qs = "[member ''a'', member ''b'', member ''d'']"
  let ?pss = "[[member ''a'', member ''c''], [member ''c'', member ''a'', member ''b'']]"
  have pre: "isInitializedRef (joined ''a'')" "localStreamRef (joined ''a'') \<noteq> None"
    "user (joined ''a'') = Some ''a''" "\<forall>n. construct_ok accepting n"
    "distinct (map fst (peerConnectionsRef (joined ''a'')))"
    by (simp_all add: joined_def accepting_def)
  have wf: "well_formed (joined ''a'')"
    by (simp add: well_formed_def joined_def)
  have none: "''a'' \<notin> fst ` set (peerConnectionsRef (joined ''a''))"
    by (simp add: joined_def)
  have s0: "fold (setParticipants accepting) ?pss (joined ''a'') = a_with_c_b"
    by (simp add: a_with_c_b_def)
  have ids: "user_id ` set ?ps - {''a''} = {''b''}"
    by (auto simp: member_def)
  have b: "map_of (peerConnectionsRef a_with_c_b) ''b'' = Some 1
      \<and> (''b'' = ''a'' \<or> ''b'' \<in> user_id ` set ?ps)"
    by (simp add: a_with_c_b_facts member_def)
  have c: "map_of (peerConnectionsRef a_with_c_b) ''c'' = Some 0
      \<and> ''c'' \<noteq> ''a'' \<and> ''c'' \<notin> user_id ` set ?ps"
    by (simp add: a_with_c_b_facts member_def)
  have m1: "{i \<in> user_id ` set ?ps. i \<noteq> ''a''
      \<and> map_of (peerConnectionsRef a_with_c_b) i = None} = {}"
    by (auto simp: a_with_c_b_facts member_def)
  have m2: "{i \<in> user_id ` set ?qs. i \<noteq> ''a''
      \<and> map_of (peerConnectionsRef a_with_c_b) i = None} = {''d''}"
    by (auto simp: a_with_c_b_facts member_def)
  note P = reconcile_one_connection_per_member [OF pre, of ?ps ?pss, unfolded s0]
  note Q = reconcile_one_connection_per_member [OF pre, of ?qs ?pss, unfolded s0]
  have kept: "map_of (peerConnectionsRef (setParticipants accepting ?ps a_with_c_b)) ''b'' = Some 1"
    using P b by blast
  have closed: "isClosed (pcs (setParticipants accepting ?ps a_with_c_b) 0)"
    using P c by blast
  have same: "pcs (setParticipants accepting ?ps a_with_c_b) 1 = pcs a_with_c_b 1"
    using P b wf by blast
  have keys: "fst ` set (peerConnectionsRef (setParticipants accepting ?ps a_with_c_b)) - {''a''}
      = {''b''}"
    using P ids by simp
  have self: "''a'' \<notin> fst ` set (peerConnectionsRef (setParticipants accepting ?ps a_with_c_b))"
    using P none by blast
  have n1: "next_pc (setParticipants accepting ?ps a_with_c_b) = 2"
    using P m1 by (simp add: a_with_c_b_facts)
  have n2: "next_pc (setParticipants accepting ?qs a_with_c_b) = 3"
    using Q m2 by (simp add: a_with_c_b_facts)
  show ?thesis
    using pre wf kept closed same keys self n1 n2 by (simp add: a_with_c_b_facts)
qed

text \<open>
  C4 as stated fails. The camera was refused, so the initialised session of a has no local
  stream; b is in the participant list, and after the step the connection map is empty.
\<close>

theorem reconcile_without_media_counterexample:
  "isInitializedRef ((joined ''a'')\<lparr>localStreamRef := None\<rparr>)
   \<and> ''b'' \<in> user_id ` set [member ''a'', member ''b'']
   \<and> peerConnectionsRef
       (setParticipants accepting [member ''a'', member ''b'']
          ((joined ''a'')\<lparr>localStreamRef := None\<rparr>)) = []"
  by (simp add: setParticipants_def reconcile_def joined_def member_def)

section \<open>Who offers and who answers\<close>

lemma a_answering_state:
  "peerConnectionsRef a_answering = [(''b'', 0)]"
  "insert_calls a_answering =
     [\<lparr>room_id = ''room'', from_user_id = ''a'', to_user_id = ''b'',
       signal_type = ''answer'', signal_data = ''answer-sdp''\<rparr>]"
  "isInitializedRef a_answering" "localStreamRef a_answering = Some [0, 1]"
  "user a_answering = Some ''a''" "roomId a_answering = Some ''room''"
  "\<not> isClosed (pcs a_answering 0)"
  by (simp_all add: a_answering_def handleSignal_offer offer_from_b_def handleOffer_def
        joined_def console_log_def accepting_def update_pc_def sendSignal_def Let_def
        new_pc_def)

text \<open>
  C10 as the code has it. Whenever \<open>createPeerConnection\<close> gets as far as a connection
  (local media, a user and a room id are present, the engine constructs the connection,
  creates the offer and accepts it as local description), it hands an offer envelope for
  the participant to the transport; no hypothesis relates the two ids, so there is no
  initiator determination. A connection that \<open>handleOffer\<close> makes for a sender without
  one sends an answer and no offer. In an initialised session with local media, on a
  platform whose calls succeed, the participant effect sends exactly one offer to each
  listed participant, the local user apart, that has no connection, and nothing else: a
  participant whose connection exists already, for instance made by \<open>handleOffer\<close>,
  gets no offer. So both sides offer when each side's effect runs while the other has no
  entry in its map.
\<close>

theorem offers_come_from_createPeerConnection:
  "(\<forall>ts u r offer. localStreamRef s = Some ts \<and> user s = Some u \<and> roomId s = Some r \<and> r \<noteq> []
        \<and> construct_ok pf (next_pc s)
        \<and> createOffer pf (new_pc ts (RetryHandler p n)) = Some offer
        \<and> setLocalDescription_ok pf (new_pc ts (RetryHandler p n)) offer
      \<longrightarrow> insert_calls (createPeerConnection pf p n s) =
            insert_calls s @ [\<lparr>room_id = r, from_user_id = u, to_user_id = p,
                               signal_type = ''offer'', signal_data = offer\<rparr>]
          \<and> map_of (peerConnectionsRef (createPeerConnection pf p n s)) p = Some (next_pc s)
          \<and> pcs (createPeerConnection pf p n s) (next_pc s) =
              (new_pc ts (RetryHandler p n))\<lparr>localDescription := Some offer\<rparr>)
   \<and> (\<forall>ts u r answer. map_of (peerConnectionsRef s) p = None \<and> localStreamRef s = Some ts
        \<and> user s = Some u \<and> roomId s = Some r \<and> r \<noteq> [] \<and> construct_ok pf (next_pc s)
        \<and> setRemoteDescription_ok pf (new_pc ts (LogHandler p)) d
        \<and> createAnswer pf ((new_pc ts (LogHandler p))\<lparr>remoteDescription := Some d\<rparr>)
            = Some answer
        \<and> setLocalDescription_ok pf
            ((new_pc ts (LogHandler p))\<lparr>remoteDescription := Some d\<rparr>) answer
      \<longrightarrow> peerConnectionsRef (handleOffer pf p d s)
            = AList.update p (next_pc s) (peerConnectionsRef s)
          \<and> insert_calls (handleOffer pf p d s) =
              insert_calls s @ [\<lparr>room_id = r, from_user_id = u, to_user_id = p,
                                 signal_type = ''answer'', signal_data = answer\<rparr>])
   \<and> (\<forall>u r. isInitializedRef s \<and> localStreamRef s \<noteq> None \<and> user s = Some u
        \<and> roomId s = Some r \<and> r \<noteq> [] \<and> (\<forall>k. construct_ok pf k)
        \<and> (\<forall>pc. createOffer pf pc \<noteq> None) \<and> (\<forall>pc x. setLocalDescription_ok pf pc x)
      \<longrightarrow> (\<exists>new. insert_calls (reconcile pf s) = insert_calls s @ new
            \<and> to_user_id ` set new =
                {i \<in> user_id ` set (participants s).
                   i \<noteq> u \<and> map_of (peerConnectionsRef s) i = None}
            \<and> distinct (map to_user_id new)
            \<and> (\<forall>e \<in> set new. signal_type e = ''offer'' \<and> from_user_id e = u
                  \<and> room_id e = r)))"
  (is "?direct \<and> ?answering \<and> ?effect")
proof (intro conjI)
  show ?direct
    using createPeerConnection_offers [of s _ _ _ pf p n] by blast
  show ?answering
    using handleOffer_new(1,4) [of s p _ _ _ pf d] by blast
  show ?effect
    using reconcile_offers [of s _ _ pf] by blast
qed

theorem offers_come_from_createPeerConnection_witness:
  "insert_calls (createPeerConnection accepting ''b'' ''b'' (joined ''a'')) =
     [\<lparr>room_id = ''room'', from_user_id = ''a'', to_user_id = ''b'',
       signal_type = ''offer'', signal_data = ''offer-sdp''\<rparr>]
   \<and> insert_calls (createPeerConnection accepting ''a'' ''a'' (joined ''b'')) =
     [\<lparr>room_id = ''room'', from_user_id = ''b'', to_user_id = ''a'',
       signal_type = ''offer'', signal_data = ''offer-sdp''\<rparr>]
   \<and> map_of (peerConnectionsRef (joined ''a'')) ''b'' = None
   \<and> peerConnectionsRef (handleOffer accepting ''b'' ''offer-sdp'' (joined ''a'')) = [(''b'', 0)]
   \<and> insert_calls (handleOffer accepting ''b'' ''offer-sdp'' (joined ''a'')) =
     [\<lparr>room_id = ''room'', from_user_id = ''a'', to_user_id = ''b'',
       signal_type = ''answer'', signal_data = ''answer-sdp''\<rparr>]
   \<and> (\<exists>new. insert_calls (reconcile accepting
                 ((joined ''a'')\<lparr>participants := [member ''a'', member ''b'']\<rparr>)) = new
          \<and> to_user_id ` set new = {''b''} \<and> distinct (map to_user_id new)
          \<and> (\<forall>e \<in> set new. signal_type e = ''offer'' \<and> from_user_id e = ''a''))
   \<and> (\<exists>new. insert_calls (reconcile accepting
                 (a_answering\<lparr>participants := [member ''a'', member ''b'']\<rparr>))
                = insert_calls a_answering @ new
          \<and> to_user_id ` set new = {})"
proof -
  have pf: "construct_ok accepting k" "createOffer accepting pc = Some ''offer-sdp''"
    "setLocalDescription_ok accepting pc x" "setRemoteDescription_ok accepting pc x"
    "createAnswer accepting pc = Some ''answer-sdp''" for k pc x
    by (simp_all add: accepting_def)
  have j: "localStreamRef (joined v) = Some [0, 1]" "user (joined v) = Some v"
    "roomId (joined v) = Some ''room''" "next_pc (joined v) = 0"
    "peerConnectionsRef (joined v) = []" "insert_calls (joined v) = []"
    "isInitializedRef (joined v)" for v
    by (simp_all add: joined_def)
  have direct_a: "insert_calls (createPeerConnection accepting ''b'' ''b'' (joined ''a'')) =
     [\<lparr>room_id = ''room'', from_user_id = ''a'', to_user_id = ''b'',
       signal_type = ''offer'', signal_data = ''offer-sdp''\<rparr>]"
    using offers_come_from_createPeerConnection [of "joined ''a''" accepting "''b''" "''b''"] pf j
    by simp
  have direct_b: "insert_calls (createPeerConnection accepting ''a'' ''a'' (joined ''b'')) =
     [\<lparr>room_id = ''room'', from_user_id = ''b'', to_user_id = ''a'',
       signal_type = ''offer'', signal_data = ''offer-sdp''\<rparr>]"
    using offers_come_from_createPeerConnection [of "joined ''b''" accepting "''a''" "''a''"] pf j
    by simp
  have answering: "peerConnectionsRef (handleOffer accepting ''b'' ''offer-sdp'' (joined ''a''))
      = [(''b'', 0)]
    \<and> insert_calls (handleOffer accepting ''b'' ''offer-sdp'' (joined ''a'')) =
     [\<lparr>room_id = ''room'', from_user_id = ''a'', to_user_id = ''b'',
       signal_type = ''answer'', signal_data = ''answer-sdp''\<rparr>]"
    using offers_come_from_createPeerConnection
            [of "joined ''a''" accepting "''b''" _ "''offer-sdp''"] pf j
    by simp
  have m1: "{i \<in> user_id ` set [member ''a'', member ''b''].
      i \<noteq> ''a'' \<and> map_of (peerConnectionsRef (joined ''a'')) i = None} = {''b''}"
    by (auto simp: j member_def)
  have effect_a: "\<exists>new. insert_calls (reconcile accepting
                 ((joined ''a'')\<lparr>participants := [member ''a'', member ''b'']\<rparr>)) = new
          \<and> to_user_id ` set new = {''b''} \<and> distinct (map to_user_id new)
          \<and> (\<forall>e \<in> set new. signal_type e = ''offer'' \<and> from_user_id e = ''a'')"
    using offers_come_from_createPeerConnection
            [of "(joined ''a'')\<lparr>participants := [member ''a'', member ''b'']\<rparr>" accepting]
          pf j m1
    by simp
  let ?sb = "a_answering\<lparr>participants := [member ''a'', member ''b'']\<rparr>"
  have hyp: "isInitializedRef ?sb \<and> localStreamRef ?sb \<noteq> None \<and> user ?sb = Some ''a''
      \<and> roomId ?sb = Some ''room'' \<and> ''room'' \<noteq> [] \<and> (\<forall>k. construct_ok accepting k)
      \<and> (\<forall>pc. createOffer accepting pc \<noteq> None)
      \<and> (\<forall>pc x. setLocalDescription_ok accepting pc x)"
    by (simp add: a_answering_state pf)
  have m3: "{i \<in> user_id ` set (participants ?sb).
      i \<noteq> ''a'' \<and> map_of (peerConnectionsRef ?sb) i = None} = {}"
    by (auto simp: a_answering_state member_def)
  have "\<exists>new. insert_calls (reconcile accepting ?sb) = insert_calls ?sb @ new
      \<and> to_user_id ` set new =
          {i \<in> user_id ` set (participants ?sb).
             i \<noteq> ''a'' \<and> map_of (peerConnectionsRef ?sb) i = None}
      \<and> distinct (map to_user_id new)
      \<and> (\<forall>e \<in> set new. signal_type e = ''offer'' \<and> from_user_id e = ''a''
            \<and> room_id e = ''room'')"
    using offers_come_from_createPeerConnection [of ?sb accepting] hyp by blast
  then obtain new where "insert_calls (reconcile accepting ?sb) = insert_calls ?sb @ new"
    "to_user_id ` set new = {}"
    unfolding m3 by blast
  then have effect_b: "\<exists>new. insert_calls (reconcile accepting ?sb)
                = insert_calls a_answering @ new
          \<and> to_user_id ` set new = {}"
    by auto
  show ?thesis
    using direct_a direct_b answering effect_a effect_b j by simp
qed

text \<open>
  C10 as stated fails. User a has no connection to b when b's offer arrives.
  \<open>handleOffer\<close> creates the connection, which is in the map and open, and the only
  envelope a has sent is an answer; when the effect then runs with b in the participant
  list, b has an entry and a sends nothing more. Only b has offered.
\<close>

theorem answering_side_sends_no_offer_counterexample:
  "map_of (peerConnectionsRef a_answering) ''b'' = Some 0
   \<and> \<not> isClosed (pcs a_answering 0)
   \<and> insert_calls a_answering =
       [\<lparr>room_id = ''room'', from_user_id = ''a'', to_user_id = ''b'',
         signal_type = ''answer'', signal_data = ''answer-sdp''\<rparr>]
   \<and> insert_calls (setParticipants accepting [member ''a'', member ''b''] a_answering) =
       [\<lparr>room_id = ''room'', from_user_id = ''a'', to_user_id = ''b'',
         signal_type = ''answer'', signal_data = ''answer-sdp''\<rparr>]"
proof -
  let ?s = "a_answering\<lparr>participants := [member ''a'', member ''b'']\<rparr>"
  have "fst ` set (peerConnectionsRef ?s) - {''a''} = user_id ` set (participants ?s) - {''a''}"
    by (auto simp: a_answering_state member_def)
  moreover have "user ?s = Some ''a''"
    by (simp add: a_answering_state)
  ultimately have "reconcile accepting ?s = ?s"
    by (rule reconcile_settled [rotated])
  then show ?thesis
    by (simp add: setParticipants_def a_answering_state)
qed

end
